theory Spec2Isabelle
  imports Complex_Main "HOL-Library.Word"
begin

section \<open>Python numerics\<close>

text \<open>
  Python ints are unbounded and are \<open>int\<close>. \<open>round(v)\<close> on a float rounds to the nearest
  integer and resolves a tie to the even neighbour; \<open>int(v)\<close> truncates toward zero.
\<close>

definition py_round :: "real \<Rightarrow> int" where
  "py_round v =
     (let f = \<lfloor>v\<rfloor>; d = v - of_int f
      in if d < 1 / 2 then f
         else if 1 / 2 < d then f + 1
         else if even f then f else f + 1)"

definition py_int :: "real \<Rightarrow> int" where
  "py_int v = (if 0 \<le> v then \<lfloor>v\<rfloor> else \<lceil>v\<rceil>)"

subsection \<open>Floats\<close>

text \<open>
  A Python float is an IEEE 754 double: a value \<open>m * 2^k\<close> with \<open>|m| < 2^53\<close> and
  \<open>k \<ge> -1074\<close>. It is carried as the real number it denotes. \<open>fl v\<close> is the double an
  arithmetic operation returns when its exact result is \<open>v\<close>: the nearest double, a tie
  going to the even mantissa, with gradual underflow below \<open>2^-1022\<close>. In \<open>targets.py\<close>
  every float operation is followed by this rounding. The exponent is not bounded above
  here: where Python gives an infinity, \<open>fl\<close> gives a value of magnitude \<open>2^1024\<close> or
  more. The tests of \<open>update\<close> against \<open>0\<close> and a bound below \<open>2^1024\<close> come out on such
  a value as on the infinity, \<open>check_collision\<close> tests for it, and the constructor is
  described for multipliers that produce none (on an infinity its \<open>round\<close> raises). A
  NaN is not described. In the engine's own bookkeeping (clock, effects, movement
  filter) float operations are read as exact.
\<close>

definition pow2 :: "int \<Rightarrow> real" where
  "pow2 k = (if 0 \<le> k then 2 ^ nat k else 1 / 2 ^ nat (- k))"

definition fl :: "real \<Rightarrow> real" where
  "fl v =
     (if v = 0 then 0
      else (let e = max \<lfloor>log 2 \<bar>v\<bar>\<rfloor> (- 1022); q = pow2 (e - 52)
            in q * of_int (py_round (v / q))))"

definition is_double :: "real \<Rightarrow> bool" where
  "is_double d = (\<exists>m k. d = of_int m * pow2 k \<and> \<bar>m\<bar> < 2 ^ 53 \<and> - 1074 \<le> k)"

text \<open>
  \<open>math.pi\<close> is the double nearest to \<open>\<pi>\<close>. \<open>math.cos\<close> and \<open>math.sin\<close> are the C
  library's; they are taken as returning the double nearest to the exact value (the
  library may differ from that in the last place).
\<close>

definition math_pi :: real where
  "math_pi = fl pi"

definition math_cos :: "real \<Rightarrow> real" where
  "math_cos a = fl (cos a)"

definition math_sin :: "real \<Rightarrow> real" where
  "math_sin a = fl (sin a)"

subsection \<open>The random source\<close>

text \<open>
  \<open>random.random()\<close> builds a 53-bit integer \<open>k\<close> from the generator's output and returns
  \<open>k / 2^53\<close>, a double in [0, 1). The integer is the input here. \<open>random.uniform(a, b)\<close>
  is \<open>a + (b - a) * self.random()\<close>.
\<close>

definition random_unit :: "53 word \<Rightarrow> real" where
  "random_unit k = of_nat (unat k) / 2 ^ 53"

definition uniform :: "real \<Rightarrow> real \<Rightarrow> 53 word \<Rightarrow> real" where
  "uniform a b k = fl (a + fl (fl (b - a) * random_unit k))"

section \<open>targets.py\<close>

type_synonym color = "int \<times> int \<times> int"

record Target =
  t_x :: real
  t_y :: real
  t_type :: string
  t_bounds :: "int \<times> int"
  t_radius :: int
  t_color :: color
  t_points :: int
  t_vx :: real
  t_vy :: real

text \<open>
  \<open>Target.__init__\<close>. The three multipliers are floats. The generator's output behind the
  two draws of the constructor is a parameter: \<open>ku\<close> for \<open>random.uniform(1.0, 3.0)\<close> and
  \<open>ka\<close> for \<open>random.uniform(0.0, 2.0 * math.pi)\<close>; they are read only when the type is
  \<open>moving\<close>.
\<close>

definition Target_init ::
  "int \<Rightarrow> int \<Rightarrow> string \<Rightarrow> int \<times> int \<Rightarrow> real \<Rightarrow> real \<Rightarrow> real \<Rightarrow> 53 word \<Rightarrow> 53 word \<Rightarrow> Target" where
  "Target_init x0 y0 target_type bnds speed_mul size_mul points_mul ku ka =
     (let base_radius = (if target_type \<noteq> ''small'' then 40 else 20);
          t0 = \<lparr>t_x = fl (of_int x0), t_y = fl (of_int y0), t_type = target_type,
                t_bounds = bnds,
                t_radius = max 8 (py_round (fl (base_radius * size_mul))),
                t_color = (0, 255, 0),
                t_points = py_round (fl (10 * points_mul)),
                t_vx = 0, t_vy = 0\<rparr>
      in if target_type = ''moving'' then
           (let speed = fl (uniform 1 3 ku * max (fl (1 / 10)) speed_mul);
                ang = uniform 0 (fl (2 * math_pi)) ka
            in t0\<lparr>t_color := (255, 255, 0),
                  t_vx := fl (math_cos ang * speed),
                  t_vy := fl (math_sin ang * speed),
                  t_points := py_round (fl (20 * points_mul))\<rparr>)
         else if target_type = ''small'' then
           t0\<lparr>t_color := (255, 0, 0), t_points := py_round (fl (30 * points_mul))\<rparr>
         else t0)"

text \<open>
  \<open>Target.update\<close>: one physics step. The horizontal and the vertical test are each an
  \<open>if\<close>/\<open>elif\<close> chain, so the low edge is tested first. The radius and the bounds are
  ints: in \<open>self.x - self.radius\<close> the radius is converted to a float, the comparisons with
  \<open>0\<close> and \<open>w\<close> are exact, and a clamped position is the int \<open>self.radius\<close> or
  \<open>w - self.radius\<close> itself. A position is thus a float or an int; \<open>fl (t_x t)\<close> is its
  value as a float.
\<close>

definition bounce :: "real \<Rightarrow> real \<Rightarrow> int \<Rightarrow> int \<Rightarrow> real \<times> real" where
  "bounce p v r edge =
     (if fl (p - fl (of_int r)) < 0 then (of_int r, fl (v * - 1))
      else if fl (p + fl (of_int r)) > of_int edge then (of_int (edge - r), fl (v * - 1))
      else (p, v))"

definition update :: "Target \<Rightarrow> Target" where
  "update t =
     (if t_type t = ''moving'' then
        (let x1 = fl (fl (t_x t) + t_vx t);
             y1 = fl (fl (t_y t) + t_vy t);
             (w, h) = t_bounds t;
             (x2, vx2) = bounce x1 (t_vx t) (t_radius t) w;
             (y2, vy2) = bounce y1 (t_vy t) (t_radius t) h
         in t\<lparr>t_x := x2, t_y := y2, t_vx := vx2, t_vy := vy2\<rparr>)
      else t)"

text \<open>
  \<open>Target.check_collision\<close>. The aim point is converted with \<open>float\<close>, so it is taken as
  a pair of reals (ints or floats); an integer aim point is passed through \<open>aim_point\<close>.
  The difference, the two squares and their sum are each rounded; \<open>radius * radius\<close> is an
  int and the comparison with it is exact. Where a step overflows, the sum is the
  infinity, which is above every int: then the rounded sum here is \<open>2^1024\<close> or more, and
  the answer is false.
\<close>

definition check_collision :: "Target \<Rightarrow> real \<times> real \<Rightarrow> bool" where
  "check_collision t pos =
     (let dx = fl (fl (t_x t) - fl (fst pos)); dy = fl (fl (t_y t) - fl (snd pos));
          s = fl (fl (dx * dx) + fl (dy * dy))
      in s < pow2 1024 \<and> s \<le> of_int (t_radius t * t_radius t))"

definition aim_point :: "int \<times> int \<Rightarrow> real \<times> real" where
  "aim_point p = (of_int (fst p), of_int (snd p))"

section \<open>hand\_tracker.py: MovementFilter\<close>

record MovementFilter =
  buffer_size :: int
  buffer :: "(int \<times> int) list"

definition MovementFilter_init :: "int \<Rightarrow> MovementFilter" where
  "MovementFilter_init n = \<lparr>buffer_size = max 1 n, buffer = []\<rparr>"

text \<open>\<open>deque.append\<close> on a deque with \<open>maxlen\<close>: a full deque drops its oldest entry.\<close>

definition deque_append :: "int \<Rightarrow> 'a list \<Rightarrow> 'a \<Rightarrow> 'a list" where
  "deque_append maxlen xs p =
     (if int (length xs) = maxlen then tl xs @ [p] else xs @ [p])"

text \<open>\<open>old[-n:]\<close> for \<open>n \<ge> 1\<close>: the last \<open>n\<close> entries, or all of them when there are fewer.\<close>

definition last_n :: "int \<Rightarrow> 'a list \<Rightarrow> 'a list" where
  "last_n n xs = drop (length xs - nat n) xs"

definition set_buffer_size :: "int \<Rightarrow> MovementFilter \<Rightarrow> MovementFilter" where
  "set_buffer_size n f =
     (let n' = max 1 n
      in if n' = buffer_size f then f
         else f\<lparr>buffer_size := n', buffer := last_n n' (buffer f)\<rparr>)"

definition add_position :: "(int \<times> int) option \<Rightarrow> MovementFilter \<Rightarrow> MovementFilter" where
  "add_position pos f =
     (case pos of
        None \<Rightarrow> f
      | Some p \<Rightarrow> f\<lparr>buffer := deque_append (buffer_size f) (buffer f) p\<rparr>)"

definition get_filtered_position :: "MovementFilter \<Rightarrow> (int \<times> int) option" where
  "get_filtered_position f =
     (if buffer f = [] then None
      else Some (py_round (of_int (sum_list (map fst (buffer f))) / of_nat (length (buffer f))),
                 py_round (of_int (sum_list (map snd (buffer f))) / of_nat (length (buffer f)))))"

text \<open>The three samples of the averaging scenario, fed in order into a window of 3.\<close>

definition fed3 :: MovementFilter where
  "fed3 = add_position (Some (6, 12))
            (add_position (Some (9, 6))
              (add_position (Some (0, 0)) (MovementFilter_init 3)))"

section \<open>game\_engine.py: data\<close>

datatype error = IndexError | ValueError

record Particle =
  p_x :: real
  p_y :: real
  p_vx :: real
  p_vy :: real
  p_life :: int
  p_max_life :: real
  p_radius :: int
  p_color :: color

record Explosion =
  particles :: "Particle list"

record Shockwave =
  s_x :: int
  s_y :: int
  s_r :: real
  s_max_r :: real
  s_life :: int
  s_max_life :: real
  s_color :: color

record Tracer =
  tr_start :: "int \<times> int"
  tr_end :: "int \<times> int"
  tr_life :: int
  tr_max_life :: real

record MuzzleFlash =
  m_pos :: "int \<times> int"
  m_end :: int

text \<open>One entry of the \<open>difficulty_levels\<close> dictionary. The three multipliers are float
  literals: the doubles nearest to the decimals written.\<close>

record Profile =
  cfg_spawn_interval :: int
  cfg_spawn_interval_min :: int
  cfg_max_ammo :: int
  cfg_shot_cooldown_ms :: int
  cfg_speed_mul :: real
  cfg_size_mul :: real
  cfg_points_mul :: real
  cfg_weights :: "(string \<times> real) list"

definition Easy :: Profile where
  "Easy = \<lparr>cfg_spawn_interval = 70, cfg_spawn_interval_min = 30, cfg_max_ammo = 8,
            cfg_shot_cooldown_ms = 300, cfg_speed_mul = fl (85 / 100),
            cfg_size_mul = fl (110 / 100), cfg_points_mul = fl (9 / 10),
            cfg_weights = [(''static'', 6 / 10), (''moving'', 3 / 10), (''small'', 1 / 10)]\<rparr>"

definition Normal :: Profile where
  "Normal = \<lparr>cfg_spawn_interval = 60, cfg_spawn_interval_min = 20, cfg_max_ammo = 6,
              cfg_shot_cooldown_ms = 250, cfg_speed_mul = 1, cfg_size_mul = 1,
              cfg_points_mul = 1,
              cfg_weights = [(''static'', 5 / 10), (''moving'', 35 / 100), (''small'', 15 / 100)]\<rparr>"

definition Hard :: Profile where
  "Hard = \<lparr>cfg_spawn_interval = 50, cfg_spawn_interval_min = 10, cfg_max_ammo = 5,
            cfg_shot_cooldown_ms = 220, cfg_speed_mul = fl (125 / 100),
            cfg_size_mul = fl (9 / 10), cfg_points_mul = fl (12 / 10),
            cfg_weights = [(''static'', 35 / 100), (''moving'', 45 / 100), (''small'', 20 / 100)]\<rparr>"

definition difficulty_levels :: "string \<rightharpoonup> Profile" where
  "difficulty_levels = [''Easy'' \<mapsto> Easy, ''Normal'' \<mapsto> Normal, ''Hard'' \<mapsto> Hard]"

text \<open>
  The engine's state: the attributes of \<open>GameEngine\<close> that the game logic reads or writes.
  The display, the font, the mixer and the options overlay are left out. \<open>played\<close> is the
  log of the cues handed to \<open>_play_sound\<close>, oldest first; whether a cue is audible is the
  sound player's matter (it is silent without an audio device).
\<close>

record GameEngine =
  screen_width :: int
  screen_height :: int
  paused :: bool
  score :: int
  max_ammo :: int
  ammo :: int
  reloading :: bool
  reload_time_ms :: int
  reload_started_at :: real
  reload_gesture_active :: bool
  pause_gesture_active :: bool
  targets :: "Target list"
  spawn_timer :: int
  spawn_interval :: int
  spawn_interval_min :: int
  start_time :: real
  last_shot_time :: int
  shot_cooldown_ms :: int
  shoot_key_held :: bool
  explosions :: "Explosion list"
  muzzle_flashes :: "MuzzleFlash list"
  shockwaves :: "Shockwave list"
  tracers :: "Tracer list"
  no_ammo_msg_end_ms :: int
  difficulty :: string
  target_speed_mul :: real
  target_size_mul :: real
  points_mul :: real
  spawn_weights :: "(string \<times> real) list"
  played :: "string list"

section \<open>game\_engine.py: operations\<close>

text \<open>
  The wall clock is an input: a parameter \<open>t\<close> is the value one call of \<open>time.time()\<close>
  returns, in seconds. An operation that reads the clock several times takes
  \<open>clk :: nat \<Rightarrow> real\<close>, where \<open>clk i\<close> is its reading number \<open>i\<close>. Nothing relates the
  readings to each other, so every run of the source is covered.
\<close>

definition now_ms :: "real \<Rightarrow> int" where
  "now_ms t = py_int (t * 1000)"

definition play_sound :: "string \<Rightarrow> GameEngine \<Rightarrow> GameEngine" where
  "play_sound key e = e\<lparr>played := played e @ [key]\<rparr>"

definition apply_difficulty :: "string \<Rightarrow> GameEngine \<Rightarrow> GameEngine" where
  "apply_difficulty level e =
     (let cfg = (case difficulty_levels level of Some c \<Rightarrow> c | None \<Rightarrow> Normal)
      in e\<lparr>spawn_interval := cfg_spawn_interval cfg,
            spawn_interval_min := cfg_spawn_interval_min cfg,
            max_ammo := cfg_max_ammo cfg,
            ammo := cfg_max_ammo cfg,
            shot_cooldown_ms := cfg_shot_cooldown_ms cfg,
            target_speed_mul := cfg_speed_mul cfg,
            target_size_mul := cfg_size_mul cfg,
            points_mul := cfg_points_mul cfg,
            spawn_weights := cfg_weights cfg\<rparr>)"

text \<open>
  \<open>GameEngine.__init__\<close> for a screen of \<open>sw\<close> by \<open>sh\<close>, constructed at clock reading
  \<open>t0\<close>. The multipliers and the weights are first written by \<open>_apply_difficulty\<close>; the
  values given to them before that call are never read.
\<close>

definition GameEngine_init :: "int \<Rightarrow> int \<Rightarrow> real \<Rightarrow> GameEngine" where
  "GameEngine_init sw sh t0 =
     apply_difficulty ''Normal''
       \<lparr>screen_width = sw, screen_height = sh, paused = False, score = 0,
        max_ammo = 6, ammo = 6, reloading = False, reload_time_ms = 1200,
        reload_started_at = 0, reload_gesture_active = False, pause_gesture_active = False,
        targets = [], spawn_timer = 0, spawn_interval = 60, spawn_interval_min = 20,
        start_time = t0, last_shot_time = 0, shot_cooldown_ms = 250, shoot_key_held = False,
        explosions = [], muzzle_flashes = [], shockwaves = [], tracers = [],
        no_ammo_msg_end_ms = 0, difficulty = ''Normal'',
        target_speed_mul = 1, target_size_mul = 1, points_mul = 1, spawn_weights = [],
        played = []\<rparr>"

subsection \<open>Spawning\<close>

fun weighted_walk :: "real \<Rightarrow> real \<Rightarrow> (string \<times> real) list \<Rightarrow> string option" where
  "weighted_walk r acc [] = None"
| "weighted_walk r acc ((name, w) # items) =
     (if r \<le> acc + w then Some name else weighted_walk r (acc + w) items)"

text \<open>\<open>_weighted_choice\<close> with \<open>r\<close> the value of \<open>random.random()\<close>; \<open>items[-1]\<close> raises on
  an empty list.\<close>

definition weighted_choice :: "real \<Rightarrow> (string \<times> real) list \<Rightarrow> error + string" where
  "weighted_choice r items =
     (case weighted_walk r 0 items of
        Some name \<Rightarrow> Inr name
      | None \<Rightarrow> (if items = [] then Inl IndexError else Inr (fst (last items))))"

text \<open>The draws of one \<open>spawn_target\<close> call, in the order the source makes them.\<close>

record spawn_draw =
  sd_r :: real
  sd_x :: int
  sd_y :: int
  sd_speed :: "53 word"
  sd_ang :: "53 word"

text \<open>\<open>random.randint(50, n - 50)\<close> raises \<open>ValueError\<close> on an empty range.\<close>

definition spawn_target :: "spawn_draw \<Rightarrow> GameEngine \<Rightarrow> error + GameEngine" where
  "spawn_target d e =
     (case weighted_choice (sd_r d) (spawn_weights e) of
        Inl err \<Rightarrow> Inl err
      | Inr ttype \<Rightarrow>
          if screen_width e - 50 < 50 then Inl ValueError
          else if screen_height e - 50 < 50 then Inl ValueError
          else Inr (e\<lparr>targets := targets e @
                 [Target_init (sd_x d) (sd_y d) ttype (screen_width e, screen_height e)
                    (target_speed_mul e) (target_size_mul e) (points_mul e)
                    (sd_speed d) (sd_ang d)]\<rparr>))"

definition maybe_increase_difficulty :: "real \<Rightarrow> GameEngine \<Rightarrow> GameEngine" where
  "maybe_increase_difficulty t e =
     (let elapsed = t - start_time e;
          step = py_int (of_int \<lfloor>elapsed / 20\<rfloor>);
          target_interval = max (spawn_interval_min e) (60 - step * 5)
      in if target_interval \<noteq> spawn_interval e
         then e\<lparr>spawn_interval := target_interval\<rparr> else e)"

subsection \<open>Effects\<close>

text \<open>The four draws behind one particle, in the order the source makes them.\<close>

record particle_draw =
  d_ang :: real
  d_spd :: real
  d_life :: int
  d_radius :: int

definition mk_particle :: "int \<Rightarrow> int \<Rightarrow> color \<Rightarrow> particle_draw \<Rightarrow> Particle" where
  "mk_particle px py col d =
     \<lparr>p_x = of_int px, p_y = of_int py,
      p_vx = cos (d_ang d) * d_spd d, p_vy = sin (d_ang d) * d_spd d,
      p_life = d_life d, p_max_life = of_int (d_life d),
      p_radius = d_radius d, p_color = col\<rparr>"

definition spawn_explosion :: "(nat \<Rightarrow> particle_draw) \<Rightarrow> int \<Rightarrow> int \<Rightarrow> color \<Rightarrow> GameEngine \<Rightarrow> GameEngine" where
  "spawn_explosion draws px py col e =
     e\<lparr>explosions := explosions e @
         [\<lparr>particles = map (\<lambda>i. mk_particle px py col (draws i)) [0..<18]\<rparr>]\<rparr>"

definition spawn_shockwave :: "int \<Rightarrow> int \<Rightarrow> color \<Rightarrow> GameEngine \<Rightarrow> GameEngine" where
  "spawn_shockwave px py col e =
     e\<lparr>shockwaves := shockwaves e @
         [\<lparr>s_x = px, s_y = py, s_r = 8, s_max_r = 90, s_life = 350, s_max_life = 350,
           s_color = col\<rparr>]\<rparr>"

definition spawn_tracer :: "int \<times> int \<Rightarrow> int \<times> int \<Rightarrow> GameEngine \<Rightarrow> GameEngine" where
  "spawn_tracer a b e =
     e\<lparr>tracers := tracers e @
         [\<lparr>tr_start = a, tr_end = b, tr_life = 120, tr_max_life = 120\<rparr>]\<rparr>"

definition spawn_muzzle_flash :: "real \<Rightarrow> (int \<times> int) option \<Rightarrow> GameEngine \<Rightarrow> GameEngine" where
  "spawn_muzzle_flash t pos e =
     (case pos of
        None \<Rightarrow> e
      | Some p \<Rightarrow> e\<lparr>muzzle_flashes := muzzle_flashes e @ [\<lparr>m_pos = p, m_end = now_ms t + 90\<rparr>]\<rparr>)"

text \<open>
  The sweeps. Each source loop runs over a copy of the collection, ages the entry in place
  and removes it from the live list when it has expired. An entry is removed by the value
  it has just been given, and every entry kept before it failed the same test on its
  value, so the entry removed is the one at hand: the loop is a map followed by a filter.
\<close>

definition age_particle :: "int \<Rightarrow> Particle \<Rightarrow> Particle" where
  "age_particle dt p =
     p\<lparr>p_x := p_x p + p_vx p, p_y := p_y p + p_vy p,
       p_vx := p_vx p * (98 / 100), p_vy := p_vy p * (98 / 100),
       p_life := p_life p - dt\<rparr>"

definition age_explosion :: "int \<Rightarrow> Explosion \<Rightarrow> Explosion" where
  "age_explosion dt ex =
     ex\<lparr>particles := filter (\<lambda>p. p_life p > 0) (map (age_particle dt) (particles ex))\<rparr>"

definition update_explosions :: "int \<Rightarrow> GameEngine \<Rightarrow> GameEngine" where
  "update_explosions dt e =
     e\<lparr>explosions := filter (\<lambda>ex. particles ex \<noteq> []) (map (age_explosion dt) (explosions e))\<rparr>"

definition update_muzzle_flashes :: "real \<Rightarrow> GameEngine \<Rightarrow> GameEngine" where
  "update_muzzle_flashes t e =
     e\<lparr>muzzle_flashes := filter (\<lambda>m. m_end m > now_ms t) (muzzle_flashes e)\<rparr>"

definition age_shockwave :: "int \<Rightarrow> Shockwave \<Rightarrow> Shockwave" where
  "age_shockwave dt s =
     s\<lparr>s_r := s_r s + 180 * (of_int dt / 1000), s_life := s_life s - dt\<rparr>"

definition shockwave_done :: "Shockwave \<Rightarrow> bool" where
  "shockwave_done s = (s_r s \<ge> s_max_r s \<or> s_life s \<le> 0)"

definition update_shockwaves :: "int \<Rightarrow> GameEngine \<Rightarrow> GameEngine" where
  "update_shockwaves dt e =
     e\<lparr>shockwaves := filter (\<lambda>s. \<not> shockwave_done s) (map (age_shockwave dt) (shockwaves e))\<rparr>"

definition age_tracer :: "int \<Rightarrow> Tracer \<Rightarrow> Tracer" where
  "age_tracer dt tr = tr\<lparr>tr_life := tr_life tr - dt\<rparr>"

definition update_tracers :: "int \<Rightarrow> GameEngine \<Rightarrow> GameEngine" where
  "update_tracers dt e =
     e\<lparr>tracers := filter (\<lambda>tr. \<not> tr_life tr \<le> 0) (map (age_tracer dt) (tracers e))\<rparr>"

subsection \<open>Hit resolution\<close>

text \<open>
  \<open>check_hit\<close>: the loop runs over a copy of the live list and has no \<open>break\<close>. Every entry
  of the copy that contains the aim point is scored and removed from the live list.
  \<open>rnd k\<close> supplies the particle draws for entry \<open>k\<close> of the copy.
\<close>

definition hit_target :: "(nat \<Rightarrow> particle_draw) \<Rightarrow> int \<times> int \<Rightarrow> Target \<Rightarrow> GameEngine \<Rightarrow> GameEngine" where
  "hit_target draws aim t e =
     (let e1 = e\<lparr>score := score e + t_points t\<rparr>;
          e2 = e1\<lparr>targets := remove1 t (targets e1)\<rparr>;
          e3 = spawn_explosion draws (py_int (t_x t)) (py_int (t_y t)) (t_color t) e2;
          e4 = play_sound ''hit'' e3;
          e5 = spawn_shockwave (py_int (t_x t)) (py_int (t_y t)) (t_color t) e4
      in spawn_tracer aim (py_int (t_x t), py_int (t_y t)) e5)"

fun check_hit_loop ::
  "(nat \<Rightarrow> nat \<Rightarrow> particle_draw) \<Rightarrow> int \<times> int \<Rightarrow> Target list \<Rightarrow> GameEngine \<Rightarrow> GameEngine" where
  "check_hit_loop rnd aim [] e = e"
| "check_hit_loop rnd aim (t # ts) e =
     check_hit_loop (\<lambda>k. rnd (Suc k)) aim ts
       (if check_collision t (aim_point aim) then hit_target (rnd 0) aim t e else e)"

definition check_hit :: "(nat \<Rightarrow> nat \<Rightarrow> particle_draw) \<Rightarrow> (int \<times> int) option \<Rightarrow> GameEngine \<Rightarrow> GameEngine" where
  "check_hit rnd aim_pos e =
     (case aim_pos of
        None \<Rightarrow> e
      | Some aim \<Rightarrow> check_hit_loop rnd aim (targets e) e)"

subsection \<open>Ammo and reload\<close>

definition toggle_pause :: "GameEngine \<Rightarrow> GameEngine" where
  "toggle_pause e = e\<lparr>paused := \<not> paused e\<rparr>"

definition start_reload :: "real \<Rightarrow> GameEngine \<Rightarrow> GameEngine" where
  "start_reload t e =
     (if \<not> reloading e \<and> ammo e < max_ammo e
      then e\<lparr>reloading := True, reload_started_at := t * 1000\<rparr>
      else e)"

definition update_reload :: "real \<Rightarrow> GameEngine \<Rightarrow> GameEngine" where
  "update_reload t e =
     (if reloading e then
        (if t * 1000 - reload_started_at e \<ge> of_int (reload_time_ms e)
         then play_sound ''reload'' (e\<lparr>reloading := False, ammo := max_ammo e\<rparr>)
         else e)
      else e)"

definition can_shoot :: "real \<Rightarrow> GameEngine \<Rightarrow> bool" where
  "can_shoot t e =
     (if paused e then False
      else if reloading e then False
      else if ammo e \<le> 0 then False
      else if now_ms t - last_shot_time e < shot_cooldown_ms e then False
      else True)"

text \<open>\<open>_shoot\<close> reads the clock three times: in \<open>_can_shoot\<close>, for \<open>last_shot_time\<close> and for
  the muzzle flash.\<close>

definition shoot ::
  "(nat \<Rightarrow> real) \<Rightarrow> (nat \<Rightarrow> nat \<Rightarrow> particle_draw) \<Rightarrow> (int \<times> int) option \<Rightarrow> GameEngine \<Rightarrow> GameEngine" where
  "shoot clk rnd aim_pos e =
     (if \<not> can_shoot (clk 0) e then e
      else
        (let e1 = e\<lparr>last_shot_time := now_ms (clk 1)\<rparr>;
             e2 = e1\<lparr>ammo := ammo e1 - 1\<rparr>;
             e3 = spawn_muzzle_flash (clk 2) aim_pos e2;
             e4 = play_sound ''shot'' e3
         in check_hit rnd aim_pos e4))"

text \<open>\<open>_try_shoot\<close> reads the clock once and hands the later readings to \<open>_shoot\<close>.\<close>

definition try_shoot ::
  "(nat \<Rightarrow> real) \<Rightarrow> (nat \<Rightarrow> nat \<Rightarrow> particle_draw) \<Rightarrow> (int \<times> int) option \<Rightarrow> GameEngine \<Rightarrow> GameEngine" where
  "try_shoot clk rnd aim_pos e =
     (if paused e \<or> reloading e then e
      else
        (let now = now_ms (clk 0)
         in if ammo e \<le> 0 then (play_sound ''dry'' e)\<lparr>no_ammo_msg_end_ms := now + 700\<rparr>
            else if now - last_shot_time e < shot_cooldown_ms e then e
            else shoot (\<lambda>i. clk (Suc i)) rnd aim_pos e))"

subsection \<open>One pass of the loop in \<open>run\<close>\<close>

text \<open>
  What one pass of the loop reads from outside, after \<open>_handle_events\<close>: the frame time
  \<open>dt_ms\<close> returned by \<open>clock.tick\<close>, the gestures (all false when there are no
  landmarks), the aim point, the clock readings of each call site and the random draws.
\<close>

record frame_input =
  dt_ms :: int
  g_shoot :: bool
  g_reload :: bool
  g_pause :: bool
  aim_pos :: "(int \<times> int) option"
  t_start_reload :: real
  clk_gesture :: "nat \<Rightarrow> real"
  rnd_gesture :: "nat \<Rightarrow> nat \<Rightarrow> particle_draw"
  clk_key :: "nat \<Rightarrow> real"
  rnd_key :: "nat \<Rightarrow> nat \<Rightarrow> particle_draw"
  t_reload :: real
  draw_spawn :: spawn_draw
  t_difficulty :: real
  t_flash :: real

definition pause_edge :: "frame_input \<Rightarrow> GameEngine \<Rightarrow> GameEngine" where
  "pause_edge inp e =
     (if g_pause inp then
        (if \<not> pause_gesture_active e
         then (toggle_pause e)\<lparr>pause_gesture_active := True\<rparr> else e)
      else e\<lparr>pause_gesture_active := False\<rparr>)"

definition reload_edge :: "frame_input \<Rightarrow> GameEngine \<Rightarrow> GameEngine" where
  "reload_edge inp e =
     (if g_reload inp then
        (if \<not> reload_gesture_active e
         then (start_reload (t_start_reload inp) e)\<lparr>reload_gesture_active := True\<rparr> else e)
      else e\<lparr>reload_gesture_active := False\<rparr>)"

definition shoot_stage :: "frame_input \<Rightarrow> GameEngine \<Rightarrow> GameEngine" where
  "shoot_stage inp e =
     (let e1 = (if g_shoot inp then try_shoot (clk_gesture inp) (rnd_gesture inp) (aim_pos inp) e
                else e)
      in if shoot_key_held e1 then try_shoot (clk_key inp) (rnd_key inp) (aim_pos inp) e1
         else e1)"

text \<open>The state in which the loop reaches \<open>if not self.paused\<close>.\<close>

definition input_stage :: "frame_input \<Rightarrow> GameEngine \<Rightarrow> GameEngine" where
  "input_stage inp e =
     update_reload (t_reload inp) (shoot_stage inp (reload_edge inp (pause_edge inp e)))"

definition spawn_stage :: "frame_input \<Rightarrow> GameEngine \<Rightarrow> error + GameEngine" where
  "spawn_stage inp e =
     (if \<not> paused e then
        (let e1 = e\<lparr>spawn_timer := spawn_timer e + 1\<rparr>
         in case (if spawn_timer e1 \<ge> spawn_interval e1 then
                    (case spawn_target (draw_spawn inp) e1 of
                       Inl err \<Rightarrow> Inl err
                     | Inr e2 \<Rightarrow>
                         Inr (maybe_increase_difficulty (t_difficulty inp) (e2\<lparr>spawn_timer := 0\<rparr>)))
                  else Inr e1) of
              Inl err \<Rightarrow> Inl err
            | Inr e3 \<Rightarrow> Inr (e3\<lparr>targets := map update (targets e3)\<rparr>))
      else Inr e)"

definition update_effects :: "frame_input \<Rightarrow> GameEngine \<Rightarrow> GameEngine" where
  "update_effects inp e =
     update_tracers (dt_ms inp)
       (update_shockwaves (dt_ms inp)
         (update_muzzle_flashes (t_flash inp)
           (update_explosions (dt_ms inp) e)))"

definition run_frame :: "frame_input \<Rightarrow> GameEngine \<Rightarrow> error + GameEngine" where
  "run_frame inp e =
     (case spawn_stage inp (input_stage inp e) of
        Inl err \<Rightarrow> Inl err
      | Inr e' \<Rightarrow> Inr (update_effects inp e'))"

text \<open>Whether this pass spawns a target.\<close>

definition spawns :: "frame_input \<Rightarrow> GameEngine \<Rightarrow> bool" where
  "spawns inp e = (\<not> paused (input_stage inp e) \<and> spawn_interval e \<le> spawn_timer e + 1)"

subsection \<open>Reachable states\<close>

inductive reachable :: "GameEngine \<Rightarrow> bool" where
  r_init: "reachable (GameEngine_init sw sh t0)"
| r_pause: "reachable e \<Longrightarrow> reachable (toggle_pause e)"
| r_key: "reachable e \<Longrightarrow> reachable (e\<lparr>shoot_key_held := b\<rparr>)"
| r_difficulty: "reachable e \<Longrightarrow> reachable (apply_difficulty level (e\<lparr>difficulty := level\<rparr>))"
| r_reload: "reachable e \<Longrightarrow> reachable (start_reload t e)"
| r_reload_done: "reachable e \<Longrightarrow> reachable (update_reload t e)"
| r_shoot: "reachable e \<Longrightarrow> reachable (shoot clk rnd aim e)"
| r_try_shoot: "reachable e \<Longrightarrow> reachable (try_shoot clk rnd aim e)"
| r_hit: "reachable e \<Longrightarrow> reachable (check_hit rnd aim e)"
| r_frame: "reachable e \<Longrightarrow> run_frame inp e = Inr e' \<Longrightarrow> reachable e'"

section \<open>Descriptions used by the theorems\<close>

text \<open>The speed of a target: the magnitude of its velocity.\<close>

definition speed_of :: "Target \<Rightarrow> real" where
  "speed_of t = sqrt ((t_vx t)\<^sup>2 + (t_vy t)\<^sup>2)"

text \<open>The draws of a moving target's constructor: the speed draw, the angle, and the
  speed (the draw times the floored multiplier).\<close>

definition draw_speed :: "53 word \<Rightarrow> real" where
  "draw_speed ku = uniform 1 3 ku"

definition draw_angle :: "53 word \<Rightarrow> real" where
  "draw_angle ka = uniform 0 (fl (2 * math_pi)) ka"

definition moving_speed :: "real \<Rightarrow> 53 word \<Rightarrow> real" where
  "moving_speed speed_mul ku = fl (draw_speed ku * max (fl (1 / 10)) speed_mul)"

text \<open>
  The entries of the copy that contain the aim point, in order, each with the particle
  draws \<open>check_hit_loop\<close> hands to its explosion; and the three effects of one hit.
\<close>

fun hit_list ::
  "(nat \<Rightarrow> nat \<Rightarrow> particle_draw) \<Rightarrow> int \<times> int \<Rightarrow> Target list \<Rightarrow> ((nat \<Rightarrow> particle_draw) \<times> Target) list" where
  "hit_list rnd aim [] = []"
| "hit_list rnd aim (t # ts) =
     (if check_collision t (aim_point aim) then [(rnd 0, t)] else [])
       @ hit_list (\<lambda>k. rnd (Suc k)) aim ts"

definition burst :: "(nat \<Rightarrow> particle_draw) \<times> Target \<Rightarrow> Explosion" where
  "burst h =
     \<lparr>particles = map (\<lambda>i. mk_particle (py_int (t_x (snd h))) (py_int (t_y (snd h)))
                          (t_color (snd h)) (fst h i)) [0..<18]\<rparr>"

definition ring :: "Target \<Rightarrow> Shockwave" where
  "ring t = \<lparr>s_x = py_int (t_x t), s_y = py_int (t_y t), s_r = 8, s_max_r = 90,
             s_life = 350, s_max_life = 350, s_color = t_color t\<rparr>"

definition trace :: "int \<times> int \<Rightarrow> Target \<Rightarrow> Tracer" where
  "trace aim t = \<lparr>tr_start = aim, tr_end = (py_int (t_x t), py_int (t_y t)),
                  tr_life = 120, tr_max_life = 120\<rparr>"

text \<open>The ammo count is within the magazine.\<close>

definition ammo_in_range :: "GameEngine \<Rightarrow> bool" where
  "ammo_in_range e = (0 \<le> ammo e \<and> ammo e \<le> max_ammo e)"

text \<open>Two engine states agree on the spawn schedule, the screen and the gun's settings.\<close>

definition same_setup :: "GameEngine \<Rightarrow> GameEngine \<Rightarrow> bool" where
  "same_setup e e' =
     (spawn_timer e' = spawn_timer e \<and> spawn_interval e' = spawn_interval e
      \<and> spawn_interval_min e' = spawn_interval_min e \<and> start_time e' = start_time e
      \<and> screen_width e' = screen_width e \<and> screen_height e' = screen_height e
      \<and> spawn_weights e' = spawn_weights e \<and> max_ammo e' = max_ammo e
      \<and> shot_cooldown_ms e' = shot_cooldown_ms e \<and> reload_time_ms e' = reload_time_ms e)"

section \<open>Concrete inputs\<close>

text \<open>A moving target built with \<open>speed_mul = 0\<close> from generator outputs 0: the speed draw
  is 1.0 and the angle is 0.0.\<close>

definition slow_target :: Target where
  "slow_target = Target_init 0 0 ''moving'' (1280, 720) 0 1 1 0 0"

text \<open>A moving target of radius 40 resting against the left edge after a bounce, its
  centre \<open>2^-30\<close> below the line \<open>y = 100\<close>.\<close>

definition rim_target :: Target where
  "rim_target = \<lparr>t_x = 40, t_y = 100 + 1 / 2 ^ 30, t_type = ''moving'',
                 t_bounds = (1280, 720), t_radius = 40, t_color = (255, 255, 0),
                 t_points = 20, t_vx = 1, t_vy = 1 / 2 ^ 30\<rparr>"



text \<open>Targets of radius 12 in a play area of 200 by 200: one crossing the left and the top
  edge, one crossing the right and the bottom edge, one in the open, and a static one.\<close>

definition low_target :: Target where
  "low_target = \<lparr>t_x = 10, t_y = 10, t_type = ''moving'', t_bounds = (200, 200), t_radius = 12,
                 t_color = (255, 255, 0), t_points = 20, t_vx = - 5, t_vy = - 5\<rparr>"



definition static_target :: Target where
  "static_target = Target_init 100 100 ''static'' (200, 200) 1 1 1 2 0"

text \<open>Particle draws that are the same for every hit and every particle.\<close>

definition fixed_draws :: "nat \<Rightarrow> nat \<Rightarrow> particle_draw" where
  "fixed_draws k i = \<lparr>d_ang = 0, d_spd = 2, d_life = 300, d_radius = 3\<rparr>"

text \<open>A fresh engine holding two overlapping static targets, centred at (100, 100) and
  (110, 100); the point (105, 100) is inside both.\<close>

definition overlap_engine :: GameEngine where
  "overlap_engine =
     (GameEngine_init 1280 720 0)
       \<lparr>targets := [Target_init 100 100 ''static'' (1280, 720) 1 1 1 1 0,
                    Target_init 110 100 ''static'' (1280, 720) 1 1 1 1 0]\<rparr>"

text \<open>A fresh engine holding a static target at (100, 100), a small one at (400, 300) and
  a static one at (700, 500); only the second contains the point (405, 300).\<close>

definition spread_engine :: GameEngine where
  "spread_engine =
     (GameEngine_init 1280 720 0)
       \<lparr>targets := [Target_init 100 100 ''static'' (1280, 720) 1 1 1 1 0,
                    Target_init 400 300 ''small'' (1280, 720) 1 1 1 1 0,
                    Target_init 700 500 ''static'' (1280, 720) 1 1 1 1 0]\<rparr>"

text \<open>A fresh engine whose last shot was at 1000 ms, and the same engine out of ammo.\<close>

definition cooling_engine :: GameEngine where
  "cooling_engine = (GameEngine_init 1280 720 0)\<lparr>last_shot_time := 1000\<rparr>"

definition dry_engine :: GameEngine where
  "dry_engine = cooling_engine\<lparr>ammo := 0\<rparr>"

text \<open>A clock that reads 1.1 s (1100 ms) at every reading.\<close>

definition clock_1100 :: "nat \<Rightarrow> real" where
  "clock_1100 i = 11 / 10"

text \<open>A fresh engine on the default screen, constructed at clock reading 0.\<close>

definition fresh_engine :: GameEngine where
  "fresh_engine = GameEngine_init 1280 720 0"

text \<open>A pass of the loop with no gesture and no aim point, 16 ms after the previous one,
  with every clock reading at 45 s.\<close>

definition idle_input :: frame_input where
  "idle_input =
     \<lparr>dt_ms = 16, g_shoot = False, g_reload = False, g_pause = False, aim_pos = None,
      t_start_reload = 45, clk_gesture = (\<lambda>i. 45), rnd_gesture = fixed_draws,
      clk_key = (\<lambda>i. 45), rnd_key = fixed_draws, t_reload = 45,
      draw_spawn = \<lparr>sd_r = 3 / 10, sd_x = 640, sd_y = 360, sd_speed = 2, sd_ang = 0\<rparr>,
      t_difficulty = 45, t_flash = 45\<rparr>"

text \<open>A fresh engine one tick before its next spawn.\<close>

definition due_engine :: GameEngine where
  "due_engine = fresh_engine\<lparr>spawn_timer := 59\<rparr>"

text \<open>
  A paused engine holding one target, a muzzle flash made at clock reading 1 s (so it ends
  at 1090 ms) and a tracer with 90 ms left; and a pass of the loop 100 ms after the
  previous one whose clock reads 1.051 s.
\<close>

definition flash_engine :: GameEngine where
  "flash_engine =
     spawn_muzzle_flash 1 (Some (5, 5))
       (fresh_engine\<lparr>paused := True, spawn_timer := 7,
          targets := [Target_init 100 100 ''moving'' (1280, 720) 1 1 1 2 0],
          tracers := [\<lparr>tr_start = (5, 5), tr_end = (9, 9), tr_life = 90, tr_max_life = 120\<rparr>]\<rparr>)"

definition slow_frame :: frame_input where
  "slow_frame = idle_input\<lparr>dt_ms := 100, t_flash := 1051 / 1000\<rparr>"

section \<open>Rounding\<close>

lemma py_round_nearest: "\<bar>v - of_int (py_round v)\<bar> \<le> 1 / 2"
  unfolding py_round_def Let_def by (auto simp: abs_le_iff)

lemma py_int_of_int [simp]: "py_int (of_int k) = k"
  by (simp add: py_int_def)

lemma py_round_of_int [simp]: "py_round (of_int k) = k"
  by (simp add: py_round_def)

lemma pow2_powr: "pow2 k = 2 powr (of_int k)"
proof (cases "0 \<le> k")
  case True
  then have "2 powr (of_int k) = (2::real) powr (of_nat (nat k))" by simp
  also have "\<dots> = 2 ^ nat k" by (simp only: powr_realpow [of 2, simplified])
  finally show ?thesis using True by (simp add: pow2_def)
next
  case False
  then have "2 powr (of_int k) = (2::real) powr (- of_nat (nat (- k)))" by simp
  also have "\<dots> = 1 / 2 powr (of_nat (nat (- k)))" by (simp only: powr_minus_divide)
  also have "\<dots> = 1 / 2 ^ nat (- k)" by (simp only: powr_realpow [of 2, simplified])
  finally show ?thesis using False by (simp add: pow2_def)
qed

lemma pow2_pos [simp]: "0 < pow2 k"
  by (simp add: pow2_powr)

lemma pow2_add: "pow2 (a + b) = pow2 a * pow2 b"
  by (simp add: pow2_powr powr_add)

lemma pow2_mono: "a \<le> b \<Longrightarrow> pow2 a \<le> pow2 b"
  by (simp add: pow2_powr)

lemma pow2_nonneg_int: "0 \<le> k \<Longrightarrow> pow2 k = of_int (2 ^ nat k)"
  by (simp add: pow2_def)

lemma py_round_mono_int: "w \<le> of_int j \<Longrightarrow> py_round w \<le> j"
  unfolding py_round_def Let_def by (auto simp: floor_le_iff)

lemma py_round_ge_int: "of_int j \<le> w \<Longrightarrow> j \<le> py_round w"
  unfolding py_round_def Let_def by (auto simp: le_floor_iff) linarith+

lemma py_round_minus: "py_round (- w) = - py_round w"
proof (cases "of_int \<lfloor>w\<rfloor> = w")
  case True
  then obtain j where w: "w = of_int j" by metis
  show ?thesis unfolding w by (simp add: py_round_def flip: of_int_minus)
next
  case False
  then have lt: "of_int \<lfloor>w\<rfloor> < w" by linarith
  have f: "\<lfloor>- w\<rfloor> = - \<lfloor>w\<rfloor> - 1"
  proof (rule floor_unique)
    show "of_int (- \<lfloor>w\<rfloor> - 1) \<le> - w" using floor_correct [of w] by simp linarith
    show "- w < of_int (- \<lfloor>w\<rfloor> - 1) + 1" using lt by simp
  qed
  show ?thesis
    unfolding py_round_def Let_def f using lt
    by (auto simp: field_simps)
qed


section \<open>Doubles\<close>

text \<open>\<open>fl\<close> never passes a double: it is the identity on doubles and keeps every bound that
  is a double.\<close>

lemma expo_bounds:
  assumes "v \<noteq> 0"
  shows "pow2 \<lfloor>log 2 \<bar>v\<bar>\<rfloor> \<le> \<bar>v\<bar> \<and> \<bar>v\<bar> < pow2 (\<lfloor>log 2 \<bar>v\<bar>\<rfloor> + 1)"
proof -
  have p: "0 < \<bar>v\<bar>" using assms by simp
  have a: "of_int \<lfloor>log 2 \<bar>v\<bar>\<rfloor> \<le> log 2 \<bar>v\<bar>" by simp
  have b: "log 2 \<bar>v\<bar> < of_int (\<lfloor>log 2 \<bar>v\<bar>\<rfloor> + 1)" by linarith
  have "2 powr (of_int \<lfloor>log 2 \<bar>v\<bar>\<rfloor>) \<le> 2 powr (log 2 \<bar>v\<bar>)"
    using a by (simp only: powr_le_cancel_iff [of 2])
  moreover have "2 powr (log 2 \<bar>v\<bar>) < 2 powr (of_int (\<lfloor>log 2 \<bar>v\<bar>\<rfloor> + 1))"
    using b by (subst powr_less_cancel_iff) simp_all
  moreover have "2 powr (log 2 \<bar>v\<bar>) = \<bar>v\<bar>" using p by simp
  ultimately show ?thesis by (simp add: pow2_powr)
qed

lemma expo_eq:
  assumes "pow2 e \<le> \<bar>v\<bar>" and "\<bar>v\<bar> < pow2 (e + 1)"
  shows "\<lfloor>log 2 \<bar>v\<bar>\<rfloor> = e"
proof -
  have p: "0 < \<bar>v\<bar>" using assms(1) pow2_pos [of e] by linarith
  have "of_int e \<le> log 2 \<bar>v\<bar>"
    using assms(1) p by (simp add: pow2_powr le_log_iff)
  moreover have "log 2 \<bar>v\<bar> < of_int e + 1"
    using assms(2) p by (simp add: pow2_powr log_less_iff)
  ultimately show ?thesis by linarith
qed

lemma fl_at:
  assumes "pow2 e \<le> \<bar>v\<bar>" and "\<bar>v\<bar> < pow2 (e + 1)" and "- 1022 \<le> e"
  shows "fl v = pow2 (e - 52) * of_int (py_round (v / pow2 (e - 52)))"
proof -
  have "0 < \<bar>v\<bar>" using assms(1) pow2_pos [of e] by linarith
  then have "v \<noteq> 0" by simp
  then show ?thesis
    using expo_eq [OF assms(1,2)] assms(3) by (simp add: fl_def Let_def max_def)
qed

lemma fl_zero [simp]: "fl 0 = 0"
  by (simp add: fl_def)

lemma fl_minus: "fl (- v) = - fl v"
  by (simp add: fl_def Let_def py_round_minus)


lemma pow2_split: "pow2 k = of_int (2 ^ nat (k - j)) * pow2 j" if "j \<le> k"
proof -
  have "pow2 k = pow2 ((k - j) + j)" by simp
  also have "\<dots> = pow2 (k - j) * pow2 j" by (rule pow2_add)
  also have "pow2 (k - j) = of_int (2 ^ nat (k - j))"
    using that by (simp add: pow2_nonneg_int)
  finally show ?thesis .
qed

lemma pow2_52: "pow2 e = 2 ^ 52 * pow2 (e - 52)"
  using pow2_split [of "e - 52" e] by simp

lemma fl_le_double:
  assumes "v \<le> d" and "is_double d"
  shows "fl v \<le> d"
proof (cases "v = 0")
  case True
  with assms(1) show ?thesis by simp
next
  case False
  define L where "L = \<lfloor>log 2 \<bar>v\<bar>\<rfloor>"
  define e where "e = max L (- 1022)"
  define q where "q = pow2 (e - 52)"
  define n where "n = py_round (v / q)"
  have flv: "fl v = q * of_int n"
    using False by (simp add: fl_def Let_def L_def e_def q_def n_def)
  have q: "0 < q" by (simp add: q_def)
  from assms(2) obtain m k where d: "d = of_int m * pow2 k" and m: "\<bar>m\<bar> < 2 ^ 53"
    and k: "- 1074 \<le> k"
    by (auto simp: is_double_def)
  from expo_bounds [OF False] have lo: "pow2 L \<le> \<bar>v\<bar>" by (simp add: L_def)
  show ?thesis
  proof (cases "e - 52 \<le> k")
    case True
    define j where "j = m * 2 ^ nat (k - (e - 52))"
    have dj: "d = q * of_int j"
      using pow2_split [OF True] by (simp add: d j_def q_def)
    have "v / q \<le> of_int j"
      using assms(1) q by (simp add: dj field_simps)
    then have "n \<le> j" unfolding n_def by (rule py_round_mono_int)
    then have "q * of_int n \<le> q * of_int j" using q by simp
    then show ?thesis by (simp add: flv dj)
  next
    case small: False
    then have eL: "e = L" using k by (simp add: e_def max_def split: if_splits)
    have "\<bar>pow2 k\<bar> = pow2 k" by (rule abs_of_pos) simp
    then have "\<bar>d\<bar> = of_int \<bar>m\<bar> * pow2 k" by (simp add: d abs_mult)
    also have "\<dots> < 2 ^ 53 * pow2 k"
    proof -
      have "(of_int \<bar>m\<bar> :: real) < of_int (2 ^ 53)" using m by (simp only: of_int_less_iff)
      then show ?thesis by simp
    qed
    also have "\<dots> = pow2 (k + 53)"
    proof -
      have "pow2 (k + 53) = pow2 k * pow2 53" by (rule pow2_add)
      moreover have "pow2 53 = 2 ^ 53" by (simp add: pow2_def)
      ultimately show ?thesis by simp
    qed
    also have "\<dots> \<le> pow2 e" using small by (intro pow2_mono) simp
    finally have dlt: "\<bar>d\<bar> < pow2 e" .
    with lo eL have "\<bar>d\<bar> < \<bar>v\<bar>" by simp
    with assms(1) have neg: "v < 0" by linarith
    with lo eL have "v \<le> - pow2 e" by simp
    then have "v / q \<le> - (2 ^ 52)"
      using q pow2_52 [of e] by (simp add: q_def field_simps)
    then have "v / q \<le> of_int (- (2 ^ 52))" by simp
    then have "n \<le> - (2 ^ 52)" unfolding n_def by (rule py_round_mono_int)
    then have "(of_int n :: real) \<le> of_int (- (2 ^ 52))" by (simp only: of_int_le_iff)
    then have "q * of_int n \<le> q * (- (2 ^ 52))"
      using q by (intro mult_left_mono) simp_all
    also have "\<dots> = - pow2 e" using pow2_52 [of e] by (simp add: q_def)
    finally have "fl v \<le> - pow2 e" by (simp add: flv)
    with dlt show ?thesis by linarith
  qed
qed

lemma is_double_minus: "is_double d \<Longrightarrow> is_double (- d)"
proof -
  assume "is_double d"
  then obtain m k where "d = of_int m * pow2 k" "\<bar>m\<bar> < 2 ^ 53" "- 1074 \<le> k"
    by (auto simp: is_double_def)
  then have "- d = of_int (- m) * pow2 k \<and> \<bar>- m\<bar> < 2 ^ 53 \<and> - 1074 \<le> k" by simp
  then show ?thesis unfolding is_double_def by blast
qed

lemma fl_ge_double:
  assumes "d \<le> v" and "is_double d"
  shows "d \<le> fl v"
proof -
  have "fl (- v) \<le> - d"
    using assms by (intro fl_le_double is_double_minus) simp_all
  then show ?thesis by (simp add: fl_minus)
qed

lemma fl_double:
  assumes "is_double d"
  shows "fl d = d"
  using fl_le_double [OF order_refl assms] fl_ge_double [OF order_refl assms] by simp


lemma pow2_nonneg [simp]: "0 \<le> pow2 k"
  using pow2_pos [of k] by (rule less_imp_le)

lemma is_double_zero [simp]: "is_double 0"
  unfolding is_double_def by (rule exI [of _ 0], rule exI [of _ 0]) simp


lemma is_double_int:
  assumes "\<bar>n\<bar> \<le> 2 ^ 53"
  shows "is_double (of_int n)"
proof (cases "\<bar>n\<bar> < 2 ^ 53")
  case True
  then have "of_int n = of_int n * pow2 0 \<and> \<bar>n\<bar> < 2 ^ 53 \<and> - 1074 \<le> (0::int)"
    by (simp add: pow2_def)
  then show ?thesis unfolding is_double_def by blast
next
  case False
  with assms have "n = 2 ^ 53 \<or> n = - (2 ^ 53)" by linarith
  then have "of_int n = of_int (n div 2 ^ 53) * pow2 53 \<and> \<bar>n div 2 ^ 53\<bar> < 2 ^ 53
      \<and> - 1074 \<le> (53::int)"
    by (auto simp: pow2_def)
  then show ?thesis unfolding is_double_def by blast
qed

lemma fl_int: "\<bar>n\<bar> \<le> 2 ^ 53 \<Longrightarrow> fl (of_int n) = of_int n"
  by (rule fl_double) (rule is_double_int)

lemma is_double_fl: "is_double (fl v)"
proof (cases "v = 0")
  case True
  then show ?thesis by simp
next
  case False
  define L where "L = \<lfloor>log 2 \<bar>v\<bar>\<rfloor>"
  define e where "e = max L (- 1022)"
  define q where "q = pow2 (e - 52)"
  define n where "n = py_round (v / q)"
  have flv: "fl v = of_int n * q"
    using False by (simp add: fl_def Let_def L_def e_def q_def n_def)
  have q: "0 < q" by (simp add: q_def)
  have e: "- 1074 \<le> e - 52" by (simp add: e_def)
  from expo_bounds [OF False] have "\<bar>v\<bar> < pow2 (L + 1)" by (simp add: L_def)
  also have "\<dots> \<le> pow2 (e + 1)" by (intro pow2_mono) (simp add: e_def)
  also have "\<dots> = 2 ^ 53 * q"
    using pow2_split [of "e - 52" "e + 1"] by (simp add: q_def)
  finally have "\<bar>v\<bar> < 2 ^ 53 * q" .
  then have "v < 2 ^ 53 * q" "- (2 ^ 53 * q) < v" by linarith+
  then have "v / q < 2 ^ 53" "- (2 ^ 53) < v / q"
    using q by (simp_all add: pos_divide_less_eq pos_less_divide_eq mult.commute)
  then have vq: "v / q \<le> of_int (2 ^ 53)" "of_int (- (2 ^ 53)) \<le> v / q" by simp_all
  have nb: "n \<le> 2 ^ 53" "- (2 ^ 53) \<le> n"
    unfolding n_def
    using py_round_mono_int [OF vq(1)] py_round_ge_int [OF vq(2)] by simp_all
  show ?thesis
  proof (cases "\<bar>n\<bar> < 2 ^ 53")
    case True
    with flv e show ?thesis unfolding is_double_def q_def by blast
  next
    case False
    with nb have n: "n = 2 ^ 53 \<or> n = - (2 ^ 53)" by linarith
    have "pow2 (e + 1) = 2 ^ 53 * q"
      using pow2_split [of "e - 52" "e + 1"] by (simp add: q_def)
    with n flv have "fl v = of_int (n div 2 ^ 53) * pow2 (e + 1) \<and> \<bar>n div 2 ^ 53\<bar> < 2 ^ 53
        \<and> - 1074 \<le> e + 1"
      using e by auto
    then show ?thesis unfolding is_double_def by blast
  qed
qed

lemma fl_idem [simp]: "fl (fl v) = fl v"
  by (rule fl_double) (rule is_double_fl)



lemma fl_tenth: "fl (1 / 10) = 3602879701896397 / 36028797018963968"
proof -
  have "fl (1 / 10) = pow2 (- 4 - 52) * of_int (py_round ((1 / 10) / pow2 (- 4 - 52)))"
    by (rule fl_at) (simp_all add: pow2_def)
  then show ?thesis by (simp add: pow2_def py_round_def)
qed


section \<open>Target: collision\<close>

lemma fl_numeral: "numeral n \<le> (2::int) ^ 53 \<Longrightarrow> fl (numeral n) = numeral n"
  using fl_int [of "numeral n"] by simp

lemma fl_one [simp]: "fl 1 = 1"
  using fl_int [of 1] by simp

text \<open>On integer coordinates of moderate size every step of the test is exact.\<close>

lemma check_collision_int:
  assumes "t_x t = of_int cx" and "t_y t = of_int cy"
    and "\<bar>cx\<bar> \<le> 2 ^ 25" and "\<bar>cy\<bar> \<le> 2 ^ 25" and "\<bar>a\<bar> \<le> 2 ^ 25" and "\<bar>b\<bar> \<le> 2 ^ 25"
  shows "check_collision t (aim_point (a, b)) \<longleftrightarrow>
           (cx - a)\<^sup>2 + (cy - b)\<^sup>2 \<le> (t_radius t)\<^sup>2"
proof -
  have big: "(2::int) ^ 25 \<le> 2 ^ 53" by simp
  have i: "fl (of_int cx) = of_int cx" "fl (of_int cy) = of_int cy"
    "fl (of_int a) = of_int a" "fl (of_int b) = of_int b"
    using assms(3-6) big by (intro fl_int; linarith)+
  have dxb: "\<bar>cx - a\<bar> \<le> 2 ^ 26" and dyb: "\<bar>cy - b\<bar> \<le> 2 ^ 26"
    using assms(3-6) by simp_all
  have dx: "fl (of_int cx - of_int a) = of_int (cx - a)"
    using fl_int [of "cx - a"] dxb by simp
  have dy: "fl (of_int cy - of_int b) = of_int (cy - b)"
    using fl_int [of "cy - b"] dyb by simp
  have sq: "\<bar>k\<bar> \<le> 2 ^ 26 \<Longrightarrow> k * k \<le> 2 ^ 52 \<and> 0 \<le> k * k" for k :: int
  proof -
    assume "\<bar>k\<bar> \<le> 2 ^ 26"
    then have "\<bar>k\<bar> * \<bar>k\<bar> \<le> 2 ^ 26 * 2 ^ 26" by (intro mult_mono) simp_all
    then show ?thesis by (simp add: abs_mult_self_eq)
  qed
  from sq [OF dxb] sq [OF dyb]
  have b2: "\<bar>(cx - a) * (cx - a)\<bar> \<le> 2 ^ 53" "\<bar>(cy - b) * (cy - b)\<bar> \<le> 2 ^ 53"
    "\<bar>(cx - a) * (cx - a) + (cy - b) * (cy - b)\<bar> \<le> 2 ^ 53"
    by simp_all
  have dx2: "fl (of_int (cx - a) * of_int (cx - a)) = of_int ((cx - a) * (cx - a))"
    using fl_int [OF b2(1)] by simp
  have dy2: "fl (of_int (cy - b) * of_int (cy - b)) = of_int ((cy - b) * (cy - b))"
    using fl_int [OF b2(2)] by simp
  have sm: "fl (of_int ((cx - a) * (cx - a)) + of_int ((cy - b) * (cy - b)))
              = of_int ((cx - a) * (cx - a) + (cy - b) * (cy - b))"
    using fl_int [OF b2(3)] by simp
  have "(of_int ((cx - a) * (cx - a) + (cy - b) * (cy - b)) :: real) \<le> of_int (2 ^ 53)"
  proof -
    have "(cx - a) * (cx - a) + (cy - b) * (cy - b) \<le> 2 ^ 53" using b2(3) by linarith
    then show ?thesis by (simp only: of_int_le_iff)
  qed
  also have "(of_int (2 ^ 53) :: real) < pow2 1024" by (simp add: pow2_def)
  finally have fin: "(of_int ((cx - a) * (cx - a) + (cy - b) * (cy - b)) :: real) < pow2 1024" .
  have "check_collision t (aim_point (a, b)) \<longleftrightarrow>
          (of_int ((cx - a) * (cx - a) + (cy - b) * (cy - b)) :: real) < pow2 1024
          \<and> (of_int ((cx - a) * (cx - a) + (cy - b) * (cy - b)) :: real)
            \<le> of_int (t_radius t * t_radius t)"
    by (simp only: check_collision_def aim_point_def Let_def fst_conv snd_conv assms(1,2)
        i dx dy dx2 dy2 sm)
  also have "\<dots> \<longleftrightarrow> (of_int ((cx - a) * (cx - a) + (cy - b) * (cy - b)) :: real)
            \<le> of_int (t_radius t * t_radius t)"
    using fin by simp
  also have "\<dots> \<longleftrightarrow> (cx - a) * (cx - a) + (cy - b) * (cy - b) \<le> t_radius t * t_radius t"
    by (simp only: of_int_le_iff)
  finally show ?thesis by (simp add: power2_eq_square)
qed

lemma is_doubleI: "d = of_int m * pow2 k \<Longrightarrow> \<bar>m\<bar> < 2 ^ 53 \<Longrightarrow> - 1074 \<le> k \<Longrightarrow> is_double d"
  unfolding is_double_def by blast

lemma fl_dyadic: "\<bar>m\<bar> < 2 ^ 53 \<Longrightarrow> - 1074 \<le> k \<Longrightarrow> fl (of_int m * pow2 k) = of_int m * pow2 k"
  by (rule fl_double) (rule is_doubleI [OF refl])

lemma rim_sum: "fl (1600 + 1 / 2 ^ 60) = 1600"
proof -
  have "fl (1600 + 1 / 2 ^ 60)
          = pow2 (10 - 52) * of_int (py_round ((1600 + 1 / 2 ^ 60) / pow2 (10 - 52)))"
    by (rule fl_at) (simp_all add: pow2_def)
  then show ?thesis by (simp add: pow2_def py_round_def)
qed

lemma rim_y: "fl (100 + 1 / 2 ^ 30) = 100 + 1 / 2 ^ 30"
  using fl_dyadic [of 107374182401 "- 30"] by (simp add: pow2_def)

lemma fl_half_pow: "fl (1 / 2 ^ 30) = 1 / 2 ^ 30" "fl (1 / 2 ^ 60) = 1 / 2 ^ 60"
  using fl_dyadic [of 1 "- 30"] fl_dyadic [of 1 "- 60"] by (simp_all add: pow2_def)

lemma check_collision_steps:
  assumes "fl (t_x t) = X" and "fl (fst p) = PX" and "fl (X - PX) = DX" and "fl (DX * DX) = SX"
    and "fl (t_y t) = Y" and "fl (snd p) = PY" and "fl (Y - PY) = DY" and "fl (DY * DY) = SY"
    and "fl (SX + SY) = S"
  shows "check_collision t p \<longleftrightarrow> S < pow2 1024 \<and> S \<le> of_int (t_radius t * t_radius t)"
  by (simp only: check_collision_def Let_def assms)

text \<open>
  C7 as stated fails off the integer grid. A moving target of radius 40 at
  (40, 100 + 2^-30) and the aim point (0, 100): the exact squared distance is
  1600 + 2^-60, more than the squared radius 1600, but the sum the code computes rounds
  to 1600.0 and the test answers true.
\<close>

theorem check_collision_rim_counterexample:
  "check_collision rim_target (aim_point (0, 100))
   \<and> \<not> (t_x rim_target - 0)\<^sup>2 + (t_y rim_target - 100)\<^sup>2 \<le> (of_int (t_radius rim_target))\<^sup>2"
proof -
  have x: "fl (t_x rim_target) = 40"
    by (simp add: rim_target_def fl_numeral)
  have px: "fl (fst (aim_point (0, 100))) = 0" and py: "fl (snd (aim_point (0, 100))) = 100"
    by (simp_all add: aim_point_def fl_numeral)
  have dx: "fl (40 - 0) = 40" and sx: "fl (40 * 40) = 1600"
    by (simp_all add: fl_numeral)
  have y: "fl (t_y rim_target) = 100 + 1 / 2 ^ 30"
    by (simp only: rim_target_def Target.select_convs rim_y)
  have dy: "fl (100 + 1 / 2 ^ 30 - 100) = 1 / 2 ^ 30"
    using fl_half_pow(1) by simp
  have sy: "fl (1 / 2 ^ 30 * (1 / 2 ^ 30)) = 1 / 2 ^ 60"
    using fl_half_pow(2) by simp
  have "check_collision rim_target (aim_point (0, 100))
          \<longleftrightarrow> (1600::real) < pow2 1024
            \<and> (1600::real) \<le> of_int (t_radius rim_target * t_radius rim_target)"
    by (rule check_collision_steps [OF x px dx sx y py dy sy rim_sum])
  then have "check_collision rim_target (aim_point (0, 100))"
    by (simp add: rim_target_def pow2_def)
  moreover have "\<not> (t_x rim_target - 0)\<^sup>2 + (t_y rim_target - 100)\<^sup>2
                    \<le> (of_int (t_radius rim_target))\<^sup>2"
    by (simp add: rim_target_def power2_eq_square)
  ultimately show ?thesis by simp
qed

text \<open>
  C7, amended. For finite coordinates \<open>check_collision(p)\<close> returns true if and only if
  the squared distance as the code computes it in doubles (each difference, each square
  and the sum rounded) has not overflowed and is at most the squared radius. For a target whose centre has integer coordinates (every
  static and small target, and every target as spawned) and an integer aim point, all
  within 2^25 in absolute value, that is the exact squared distance: the test is true
  if and only if the squared distance from the centre to \<open>p\<close> is at most the squared
  radius, and the point at centre + (radius, 0) is a hit (the boundary is inclusive).
\<close>

theorem check_collision_exact:
  assumes "t_x t = of_int cx" and "t_y t = of_int cy"
    and "\<bar>cx\<bar> \<le> 2 ^ 25" and "\<bar>cy\<bar> \<le> 2 ^ 25" and "\<bar>a\<bar> \<le> 2 ^ 25" and "\<bar>b\<bar> \<le> 2 ^ 25"
  shows
   "(check_collision t (aim_point (a, b)) \<longleftrightarrow>
       (t_x t - of_int a)\<^sup>2 + (t_y t - of_int b)\<^sup>2 \<le> (of_int (t_radius t))\<^sup>2)
    \<and> (\<bar>cx + t_radius t\<bar> \<le> 2 ^ 25 \<longrightarrow>
         check_collision t (aim_point (cx + t_radius t, cy)))
    \<and> (\<bar>fl (t_x t')\<bar> < pow2 1024 \<and> \<bar>fl (t_y t')\<bar> < pow2 1024
         \<and> \<bar>fl (fst p)\<bar> < pow2 1024 \<and> \<bar>fl (snd p)\<bar> < pow2 1024 \<longrightarrow>
        (check_collision t' p \<longleftrightarrow>
         fl (fl ((fl (fl (t_x t') - fl (fst p)))\<^sup>2) + fl ((fl (fl (t_y t') - fl (snd p)))\<^sup>2))
           < pow2 1024
         \<and> fl (fl ((fl (fl (t_x t') - fl (fst p)))\<^sup>2) + fl ((fl (fl (t_y t') - fl (snd p)))\<^sup>2))
           \<le> (of_int (t_radius t'))\<^sup>2))"
proof -
  have "check_collision t (aim_point (a, b)) \<longleftrightarrow>
          (cx - a)\<^sup>2 + (cy - b)\<^sup>2 \<le> (t_radius t)\<^sup>2"
    by (rule check_collision_int [OF assms])
  also have "\<dots> \<longleftrightarrow> (of_int ((cx - a)\<^sup>2 + (cy - b)\<^sup>2) :: real) \<le> of_int ((t_radius t)\<^sup>2)"
    by (simp only: of_int_le_iff)
  finally have one: "check_collision t (aim_point (a, b)) \<longleftrightarrow>
       (t_x t - of_int a)\<^sup>2 + (t_y t - of_int b)\<^sup>2 \<le> (of_int (t_radius t))\<^sup>2"
    by (simp add: assms(1,2))
  have two: "\<bar>cx + t_radius t\<bar> \<le> 2 ^ 25 \<longrightarrow>
         check_collision t (aim_point (cx + t_radius t, cy))"
  proof
    assume r: "\<bar>cx + t_radius t\<bar> \<le> 2 ^ 25"
    show "check_collision t (aim_point (cx + t_radius t, cy))"
      using check_collision_int [OF assms(1,2,3,4) r assms(4)] by simp
  qed
  have three: "check_collision t' p \<longleftrightarrow>
         fl (fl ((fl (fl (t_x t') - fl (fst p)))\<^sup>2) + fl ((fl (fl (t_y t') - fl (snd p)))\<^sup>2))
           < pow2 1024
         \<and> fl (fl ((fl (fl (t_x t') - fl (fst p)))\<^sup>2) + fl ((fl (fl (t_y t') - fl (snd p)))\<^sup>2))
           \<le> (of_int (t_radius t'))\<^sup>2"
    by (simp add: check_collision_def Let_def power2_eq_square)
  from one two three show ?thesis by blast
qed

theorem check_collision_exact_witness:
  "t_x static_target = of_int 100 \<and> t_y static_target = of_int 100
   \<and> t_radius static_target = 40
   \<and> \<bar>100 :: int\<bar> \<le> 2 ^ 25 \<and> \<bar>130 :: int\<bar> \<le> 2 ^ 25 \<and> \<bar>110 :: int\<bar> \<le> 2 ^ 25
   \<and> \<bar>141 :: int\<bar> \<le> 2 ^ 25 \<and> \<bar>100 + t_radius static_target\<bar> \<le> 2 ^ 25
   \<and> check_collision static_target (aim_point (130, 110))
   \<and> \<not> check_collision static_target (aim_point (141, 100))
   \<and> check_collision static_target (aim_point (100 + t_radius static_target, 100))"
proof -
  have f: "t_x static_target = of_int 100" "t_y static_target = of_int 100"
    "t_radius static_target = 40"
    by (simp_all add: static_target_def Target_init_def fl_numeral py_round_def)
  have b: "\<bar>100 :: int\<bar> \<le> 2 ^ 25" "\<bar>130 :: int\<bar> \<le> 2 ^ 25" "\<bar>141 :: int\<bar> \<le> 2 ^ 25"
    "\<bar>110 :: int\<bar> \<le> 2 ^ 25"
    by simp_all
  show ?thesis
    using check_collision_exact [OF f(1,2) b(1) b(1) b(2) b(4),
        where t' = low_target and p = "(0, 0)"]
      check_collision_exact [OF f(1,2) b(1) b(1) b(3) b(1),
        where t' = low_target and p = "(0, 0)"] f
    by simp
qed

section \<open>Target: construction\<close>

lemma random_unit_range: "0 \<le> random_unit k \<and> random_unit k < 1"
proof -
  have g: "0 \<le> x \<Longrightarrow> x < 2 ^ 53 \<Longrightarrow> 0 \<le> x / 2 ^ 53 \<and> x / 2 ^ 53 < 1" for x :: real
    by simp
  have "unat k < 2 ^ 53" using unsigned_less [of k] by simp
  then have "(of_nat (unat k) :: real) < of_nat (2 ^ 53)" by (simp only: of_nat_less_iff)
  then have lt: "(of_nat (unat k) :: real) < 2 ^ 53" by simp
  have ge: "0 \<le> (of_nat (unat k) :: real)" by (rule of_nat_0_le_iff)
  show ?thesis unfolding random_unit_def using ge lt by (rule g)
qed

lemma random_unit_zero [simp]: "random_unit 0 = 0"
  by (simp add: random_unit_def)

lemma uniform_range:
  assumes "is_double a" and "is_double b" and "a \<le> b" and "fl (b - a) = b - a"
  shows "a \<le> uniform a b k \<and> uniform a b k \<le> b"
proof -
  let ?r = "random_unit k"
  let ?w = "b - a"
  have w: "is_double ?w" using is_double_fl [of ?w] by (simp add: assms(4))
  have r: "0 \<le> ?r" "?r < 1" using random_unit_range [of k] by simp_all
  have "0 \<le> ?w * ?r" using r assms(3) by simp
  then have lo: "0 \<le> fl (?w * ?r)" by (rule fl_ge_double) simp
  have "?w * ?r \<le> ?w * 1" using r assms(3) by (intro mult_left_mono) simp_all
  then have "?w * ?r \<le> ?w" by simp
  then have hi: "fl (?w * ?r) \<le> ?w" using w by (rule fl_le_double)
  have "a \<le> a + fl (?w * ?r)" using lo by simp
  then have a: "a \<le> fl (a + fl (?w * ?r))" using assms(1) by (rule fl_ge_double)
  have "a + fl (?w * ?r) \<le> b" using hi by simp
  then have b: "fl (a + fl (?w * ?r)) \<le> b" using assms(2) by (rule fl_le_double)
  from a b show ?thesis by (simp add: uniform_def assms(4))
qed

lemma uniform_zero: "fl a = a \<Longrightarrow> uniform a b 0 = a"
  by (simp add: uniform_def)

lemma is_double_numeral: "numeral n \<le> (2::int) ^ 53 \<Longrightarrow> is_double (numeral n)"
  using is_double_int [of "numeral n"] by simp

lemma is_double_one [simp]: "is_double 1"
  using is_double_int [of 1] by simp

lemma draw_speed_range: "1 \<le> draw_speed ku \<and> draw_speed ku \<le> 3"
proof -
  have "fl (3 - 1) = (3::real) - 1" using fl_numeral [of "num.Bit0 num.One"] by simp
  then show ?thesis
    unfolding draw_speed_def by (intro uniform_range) (simp_all add: is_double_numeral)
qed

lemma two_pi_nonneg: "0 \<le> fl (2 * math_pi)"
proof -
  have "0 \<le> math_pi" unfolding math_pi_def by (rule fl_ge_double) simp_all
  then have "0 \<le> 2 * math_pi" by simp
  then show ?thesis by (rule fl_ge_double) simp
qed

lemma draw_angle_range: "0 \<le> draw_angle ka \<and> draw_angle ka \<le> fl (2 * math_pi)"
  unfolding draw_angle_def using two_pi_nonneg
  by (intro uniform_range) (simp_all add: is_double_fl)

lemma moving_speed_pos: "0 < moving_speed sp ku"
proof -
  have t: "0 < fl (1 / 10)" by (simp add: fl_tenth)
  have "fl (1 / 10) \<le> max (fl (1 / 10)) sp" by simp
  moreover have "1 \<le> draw_speed ku" using draw_speed_range by simp
  ultimately have "1 * fl (1 / 10) \<le> draw_speed ku * max (fl (1 / 10)) sp"
    using t by (intro mult_mono) simp_all
  then have "fl (1 / 10) \<le> draw_speed ku * max (fl (1 / 10)) sp" by simp
  then have "fl (1 / 10) \<le> moving_speed sp ku"
    unfolding moving_speed_def by (rule fl_ge_double) (rule is_double_fl)
  with t show ?thesis by linarith
qed

lemma scaled_unit:
  assumes "is_double s" and "0 \<le> s" and "\<bar>c\<bar> \<le> 1"
  shows "\<bar>fl (c * s)\<bar> \<le> s"
proof -
  have "\<bar>c * s\<bar> \<le> 1 * s" unfolding abs_mult using assms(2,3)
    by (intro mult_mono) simp_all
  then have "c * s \<le> s" "- s \<le> c * s" by (simp_all add: abs_le_iff)
  then have "fl (c * s) \<le> s" "- s \<le> fl (c * s)"
    using assms(1) by (auto intro: fl_le_double fl_ge_double is_double_minus)
  then show ?thesis by (simp add: abs_le_iff)
qed

lemma math_cos_unit: "\<bar>math_cos a\<bar> \<le> 1"
proof -
  have "fl (cos a) \<le> 1" by (rule fl_le_double) simp_all
  moreover have "- 1 \<le> fl (cos a)" by (rule fl_ge_double) (simp_all add: is_double_minus)
  ultimately show ?thesis by (simp add: math_cos_def abs_le_iff)
qed

lemma math_sin_unit: "\<bar>math_sin a\<bar> \<le> 1"
proof -
  have "fl (sin a) \<le> 1" by (rule fl_le_double) simp_all
  moreover have "- 1 \<le> fl (sin a)" by (rule fl_ge_double) (simp_all add: is_double_minus)
  ultimately show ?thesis by (simp add: math_sin_def abs_le_iff)
qed

lemma half_unit: "random_unit 4503599627370496 = 1 / 2"
  by (simp add: random_unit_def)

lemma draw_speed_eq: "draw_speed ku = fl (1 + fl (2 * random_unit ku))"
  by (simp add: draw_speed_def uniform_def fl_numeral)

lemma draw_angle_eq: "draw_angle ka = fl (fl (2 * math_pi) * random_unit ka)"
  by (simp add: draw_angle_def uniform_def)

lemma draw_speed_zero: "draw_speed 0 = 1"
  by (simp add: draw_speed_eq)

lemma draw_speed_half: "draw_speed 4503599627370496 = 2"
  by (simp add: draw_speed_eq half_unit fl_numeral)

lemma draw_angle_zero: "draw_angle 0 = 0"
  by (simp add: draw_angle_eq)

lemma math_cos_zero: "math_cos 0 = 1" and math_sin_zero: "math_sin 0 = 0"
  by (simp_all add: math_cos_def math_sin_def)

lemma Target_init_moving_fields:
  "t_radius (Target_init x0 y0 ''moving'' b sp sz pm ku ka) = max 8 (py_round (fl (40 * sz)))
   \<and> t_points (Target_init x0 y0 ''moving'' b sp sz pm ku ka) = py_round (fl (20 * pm))
   \<and> t_vx (Target_init x0 y0 ''moving'' b sp sz pm ku ka)
       = fl (math_cos (draw_angle ka) * moving_speed sp ku)
   \<and> t_vy (Target_init x0 y0 ''moving'' b sp sz pm ku ka)
       = fl (math_sin (draw_angle ka) * moving_speed sp ku)"
  by (simp add: Target_init_def Let_def moving_speed_def draw_speed_def draw_angle_def)

lemma slow_speed: "moving_speed 0 0 = fl (1 / 10)"
  using fl_tenth by (simp add: moving_speed_def draw_speed_zero max_def)

text \<open>
  C4 as stated fails: with \<open>speed_mul = 0\<close>, the speed draw 1.0 and the angle 0.0 the claim
  gives the speed \<open>1.0 * 0\<close>, and the constructor gives the double 0.1, since it multiplies
  the draw by \<open>max(0.1, speed_mul)\<close>.
\<close>

theorem Target_init_moving_counterexample:
  "draw_speed 0 = 1
   \<and> speed_of slow_target = 3602879701896397 / 36028797018963968
   \<and> speed_of slow_target \<noteq> draw_speed 0 * 0"
proof -
  have v: "t_vx slow_target = fl (1 / 10)" "t_vy slow_target = 0"
    using Target_init_moving_fields [of 0 0 "(1280, 720)" 0 1 1 0 0]
    by (simp_all add: slow_target_def draw_angle_zero math_cos_zero math_sin_zero slow_speed)
  have "speed_of slow_target = 3602879701896397 / 36028797018963968"
    by (simp add: speed_of_def v fl_tenth)
  then show ?thesis by (simp add: draw_speed_zero)
qed

text \<open>
  C4, amended. A target constructed with type \<open>moving\<close> has radius
  \<open>max(8, round(40 * size_mul))\<close> and point value \<open>round(20 * points_mul)\<close>. Its velocity
  is \<open>(cos(a) * s, sin(a) * s)\<close>: the direction \<open>a\<close> is \<open>random.uniform(0, 2 * pi)\<close>, that is
  \<open>2 * pi\<close> times the generator's uniform sample of [0, 1), and lies in [0, 2 pi]; the
  magnitude \<open>s\<close> is \<open>random.uniform(1.0, 3.0)\<close>, that is 1 plus twice such a sample, which
  lies in [1.0, 3.0], multiplied by \<open>max(0.1, speed_mul)\<close>; this is the draw multiplied by
  \<open>speed_mul\<close> whenever \<open>speed_mul\<close> is at least 0.1. Every product and sum is a double
  operation, and each velocity component is at most \<open>s\<close> in absolute value. The uniformity
  itself is the generator's: both draws are its sample under an increasing affine map.
  The multipliers are taken short of overflow: the doubles \<open>40 * size_mul\<close>,
  \<open>20 * points_mul\<close> and \<open>s\<close> are finite (on an infinity \<open>round\<close> raises, and the velocity is
  no number).
\<close>

theorem Target_init_moving:
  assumes "\<bar>fl (40 * sz)\<bar> < pow2 1024" and "\<bar>fl (20 * pm)\<bar> < pow2 1024"
    and "moving_speed sp ku < pow2 1024"
  shows
  "t_radius (Target_init x0 y0 ''moving'' b sp sz pm ku ka) = max 8 (py_round (fl (40 * sz)))
   \<and> t_points (Target_init x0 y0 ''moving'' b sp sz pm ku ka) = py_round (fl (20 * pm))
   \<and> t_vx (Target_init x0 y0 ''moving'' b sp sz pm ku ka)
       = fl (math_cos (draw_angle ka) * moving_speed sp ku)
   \<and> t_vy (Target_init x0 y0 ''moving'' b sp sz pm ku ka)
       = fl (math_sin (draw_angle ka) * moving_speed sp ku)
   \<and> draw_angle ka = fl (fl (2 * math_pi) * random_unit ka)
   \<and> 0 \<le> draw_angle ka \<and> draw_angle ka \<le> fl (2 * math_pi)
   \<and> draw_speed ku = fl (1 + fl (2 * random_unit ku))
   \<and> 1 \<le> draw_speed ku \<and> draw_speed ku \<le> 3
   \<and> 0 \<le> random_unit ku \<and> random_unit ku < 1 \<and> 0 \<le> random_unit ka \<and> random_unit ka < 1
   \<and> moving_speed sp ku = fl (draw_speed ku * max (fl (1 / 10)) sp)
   \<and> (fl (1 / 10) \<le> sp \<longrightarrow> moving_speed sp ku = fl (draw_speed ku * sp))
   \<and> \<bar>t_vx (Target_init x0 y0 ''moving'' b sp sz pm ku ka)\<bar> \<le> moving_speed sp ku
   \<and> \<bar>t_vy (Target_init x0 y0 ''moving'' b sp sz pm ku ka)\<bar> \<le> moving_speed sp ku"
proof -
  note f = Target_init_moving_fields [of x0 y0 b sp sz pm ku ka]
  have s: "is_double (moving_speed sp ku)" "0 \<le> moving_speed sp ku"
    using moving_speed_pos [of sp ku] by (simp_all add: moving_speed_def is_double_fl)
  have vx: "\<bar>t_vx (Target_init x0 y0 ''moving'' b sp sz pm ku ka)\<bar> \<le> moving_speed sp ku"
    using scaled_unit [OF s math_cos_unit] f by simp
  have vy: "\<bar>t_vy (Target_init x0 y0 ''moving'' b sp sz pm ku ka)\<bar> \<le> moving_speed sp ku"
    using scaled_unit [OF s math_sin_unit] f by simp
  have m: "fl (1 / 10) \<le> sp \<longrightarrow> moving_speed sp ku = fl (draw_speed ku * sp)"
    by (simp add: moving_speed_def max_def)
  have m0: "moving_speed sp ku = fl (draw_speed ku * max (fl (1 / 10)) sp)"
    by (simp add: moving_speed_def)
  from f vx vy m m0 draw_speed_eq [of ku] draw_angle_eq [of ka] draw_speed_range [of ku]
    draw_angle_range [of ka] random_unit_range [of ku] random_unit_range [of ka]
  show ?thesis by blast
qed

theorem Target_init_moving_witness:
  "fl (1 / 10) \<le> 2
   \<and> \<bar>fl (40 * 1)\<bar> < pow2 1024 \<and> \<bar>fl (20 * 1)\<bar> < pow2 1024
   \<and> moving_speed 2 4503599627370496 < pow2 1024
   \<and> t_radius (Target_init 50 50 ''moving'' (200, 200) 2 1 1 4503599627370496 0) = 40
   \<and> t_points (Target_init 50 50 ''moving'' (200, 200) 2 1 1 4503599627370496 0) = 20
   \<and> draw_speed 4503599627370496 = 2
   \<and> moving_speed 2 4503599627370496 = 4
   \<and> t_vx (Target_init 50 50 ''moving'' (200, 200) 2 1 1 4503599627370496 0) = 4
   \<and> t_vy (Target_init 50 50 ''moving'' (200, 200) 2 1 1 4503599627370496 0) = 0"
proof -
  have t: "fl (1 / 10) \<le> 2" by (simp add: fl_tenth)
  have m: "fl (2 * 2) = 4" using fl_numeral [of "num.Bit0 (num.Bit0 num.One)"] by simp
  have s: "moving_speed 2 4503599627370496 = 4"
    using t m by (simp add: moving_speed_def draw_speed_half max_def)
  have p: "(4::real) < pow2 1024" "(40::real) < pow2 1024" "(20::real) < pow2 1024"
    by (simp_all add: pow2_def)
  have h: "\<bar>fl (40 * 1)\<bar> < pow2 1024" "\<bar>fl (20 * 1)\<bar> < pow2 1024"
    "moving_speed 2 4503599627370496 < pow2 1024"
    using p by (simp_all add: fl_numeral s)
  show ?thesis
    using Target_init_moving [OF h, of 50 50 "(200, 200)" 0] h t m s
    by (simp add: draw_speed_half draw_angle_zero math_cos_zero math_sin_zero fl_numeral
        py_round_def)
qed

section \<open>Target: physics\<close>









lemma update_other_fields:
  "t_type (update t) = t_type t \<and> t_bounds (update t) = t_bounds t
   \<and> t_radius (update t) = t_radius t \<and> t_color (update t) = t_color t
   \<and> t_points (update t) = t_points t"
  by (simp add: update_def Let_def split: prod.splits)


















section \<open>MovementFilter\<close>

lemma deque_append_length:
  "int (length xs) \<le> n \<Longrightarrow> 1 \<le> n \<Longrightarrow> int (length (deque_append n xs p)) \<le> n"
  by (auto simp: deque_append_def)

text \<open>
  C9. Feeding (0,0), (9,6), (6,12) into a filter of window 3 gives the filtered position
  (5,6), the rounded mean per axis; shrinking the window to 2 keeps exactly the two most
  recent samples, which are then the ones averaged (to (8,9), the tie 7.5 going to the
  even 8), also after a further sample. In general, shrinking any filter holding at
  least two samples from another window size to 2 keeps its last two samples, and
  a filter already at window 2 is left as it is.
\<close>

theorem movement_filter_average:
  assumes "2 \<le> length (buffer f)"
  shows
   "buffer fed3 = [(0, 0), (9, 6), (6, 12)]
    \<and> get_filtered_position fed3 = Some (5, 6)
    \<and> buffer (set_buffer_size 2 fed3) = [(9, 6), (6, 12)]
    \<and> get_filtered_position (set_buffer_size 2 fed3) = Some (8, 9)
    \<and> get_filtered_position (add_position (Some (10, 10)) (set_buffer_size 2 fed3)) = Some (8, 11)
    \<and> (buffer_size f \<noteq> 2 \<longrightarrow>
         buffer (set_buffer_size 2 f) = drop (length (buffer f) - 2) (buffer f)
         \<and> length (buffer (set_buffer_size 2 f)) = 2)
    \<and> (buffer_size f = 2 \<longrightarrow> set_buffer_size 2 f = f)"
proof -
  have b: "buffer fed3 = [(0, 0), (9, 6), (6, 12)]"
    by (simp add: fed3_def add_position_def MovementFilter_init_def deque_append_def)
  have s: "buffer_size fed3 = 3"
    by (simp add: fed3_def add_position_def MovementFilter_init_def)
  have g: "get_filtered_position fed3 = Some (5, 6)"
    by (simp add: get_filtered_position_def b py_round_def)
  have b2: "buffer (set_buffer_size 2 fed3) = [(9, 6), (6, 12)]"
    by (simp add: set_buffer_size_def b s last_n_def)
  have s2: "buffer_size (set_buffer_size 2 fed3) = 2"
    by (simp add: set_buffer_size_def s)
  have g2: "get_filtered_position (set_buffer_size 2 fed3) = Some (8, 9)"
    by (simp add: get_filtered_position_def b2 py_round_def)
  have g3: "get_filtered_position (add_position (Some (10, 10)) (set_buffer_size 2 fed3)) = Some (8, 11)"
    by (simp add: get_filtered_position_def add_position_def deque_append_def b2 s2 py_round_def)
  have gen: "buffer_size f \<noteq> 2 \<longrightarrow>
         buffer (set_buffer_size 2 f) = drop (length (buffer f) - 2) (buffer f)
         \<and> length (buffer (set_buffer_size 2 f)) = 2"
    using assms by (simp add: set_buffer_size_def last_n_def)
  have same: "buffer_size f = 2 \<longrightarrow> set_buffer_size 2 f = f"
    by (simp add: set_buffer_size_def)
  from b g b2 g2 g3 gen same show ?thesis by blast
qed

theorem movement_filter_average_witness:
  "2 \<le> length (buffer fed3) \<and> buffer_size fed3 \<noteq> 2
   \<and> get_filtered_position fed3 = Some (5, 6)
   \<and> buffer (set_buffer_size 2 fed3) = drop (length (buffer fed3) - 2) (buffer fed3)
   \<and> buffer (set_buffer_size 2 fed3) = [(9, 6), (6, 12)]
   \<and> length (buffer (set_buffer_size 2 fed3)) = 2
   \<and> 2 \<le> length (buffer (set_buffer_size 2 fed3))
   \<and> buffer_size (set_buffer_size 2 fed3) = 2
   \<and> set_buffer_size 2 (set_buffer_size 2 fed3) = set_buffer_size 2 fed3"
proof -
  have b: "buffer fed3 = [(0, 0), (9, 6), (6, 12)]"
    by (simp add: fed3_def add_position_def MovementFilter_init_def deque_append_def)
  have s: "buffer_size fed3 = 3"
    by (simp add: fed3_def add_position_def MovementFilter_init_def)
  have h: "2 \<le> length (buffer fed3)" by (simp add: b)
  have s2: "buffer_size (set_buffer_size 2 fed3) = 2"
    by (simp add: set_buffer_size_def s)
  have h2: "2 \<le> length (buffer (set_buffer_size 2 fed3))"
    by (simp add: set_buffer_size_def s b last_n_def)
  show ?thesis
    using movement_filter_average [OF h] movement_filter_average [OF h2] s h s2 h2 by simp
qed

section \<open>Hit resolution\<close>

lemma plain_target:
  "Target_init x0 y0 ''static'' b 1 1 1 ku ka =
     \<lparr>t_x = fl (of_int x0), t_y = fl (of_int y0), t_type = ''static'', t_bounds = b,
      t_radius = 40, t_color = (0, 255, 0), t_points = 10, t_vx = 0, t_vy = 0\<rparr>"
  "Target_init x0 y0 ''small'' b 1 1 1 ku ka =
     \<lparr>t_x = fl (of_int x0), t_y = fl (of_int y0), t_type = ''small'', t_bounds = b,
      t_radius = 20, t_color = (255, 0, 0), t_points = 30, t_vx = 0, t_vy = 0\<rparr>"
  by (simp_all add: Target_init_def fl_numeral py_round_def)

text \<open>The hit test of a target built at an integer position, against an integer aim
  point.\<close>

lemma plain_target_hit:
  assumes "t = Target_init x0 y0 ty bd sp sz pm ku ka"
    and "\<bar>x0\<bar> \<le> 2 ^ 25" and "\<bar>y0\<bar> \<le> 2 ^ 25" and "\<bar>a\<bar> \<le> 2 ^ 25" and "\<bar>b\<bar> \<le> 2 ^ 25"
  shows "check_collision t (aim_point (a, b)) \<longleftrightarrow>
           (x0 - a)\<^sup>2 + (y0 - b)\<^sup>2 \<le> (t_radius t)\<^sup>2"
proof -
  have big: "(2::int) ^ 25 \<le> 2 ^ 53" by simp
  have "fl (of_int x0) = of_int x0" "fl (of_int y0) = of_int y0"
    using assms(2,3) big by (intro fl_int; linarith)+
  then have "t_x t = of_int x0" "t_y t = of_int y0"
    by (simp_all add: assms(1) Target_init_def Let_def)
  then show ?thesis using assms(2-5) by (rule check_collision_int)
qed

lemma hit_list_targets:
  "map snd (hit_list rnd aim ts) = filter (\<lambda>t. check_collision t (aim_point aim)) ts"
  by (induction ts arbitrary: rnd) simp_all

lemma hit_list_length:
  "length (hit_list rnd aim ts) = length (filter (\<lambda>t. check_collision t (aim_point aim)) ts)"
  using hit_list_targets [of rnd aim ts] by (metis length_map)

lemma hit_target_eq:
  "hit_target draws aim t e =
     e\<lparr>score := score e + t_points t,
       targets := remove1 t (targets e),
       explosions := explosions e @ [burst (draws, t)],
       played := played e @ [''hit''],
       shockwaves := shockwaves e @ [ring t],
       tracers := tracers e @ [trace aim t]\<rparr>"
  by (simp add: hit_target_def spawn_explosion_def play_sound_def spawn_shockwave_def
      spawn_tracer_def burst_def ring_def trace_def)

lemma check_hit_loop_eq:
  "check_hit_loop rnd aim ts e =
     e\<lparr>score := score e + sum_list (map (t_points \<circ> snd) (hit_list rnd aim ts)),
       targets := fold remove1 (map snd (hit_list rnd aim ts)) (targets e),
       explosions := explosions e @ map burst (hit_list rnd aim ts),
       played := played e @ map (\<lambda>h. ''hit'') (hit_list rnd aim ts),
       shockwaves := shockwaves e @ map (ring \<circ> snd) (hit_list rnd aim ts),
       tracers := tracers e @ map (trace aim \<circ> snd) (hit_list rnd aim ts)\<rparr>"
proof (induction ts arbitrary: rnd e)
  case Nil
  show ?case by simp
next
  case (Cons t ts)
  show ?case
    by (simp add: Cons.IH hit_target_eq)
qed

lemma fold_remove1_filter:
  "\<forall>p\<in>set pre. \<not> P p \<Longrightarrow>
   fold remove1 (filter P xs) (pre @ xs) = pre @ filter (\<lambda>x. \<not> P x) xs"
proof (induction xs arbitrary: pre)
  case Nil
  show ?case by simp
next
  case (Cons a xs)
  show ?case
  proof (cases "P a")
    case True
    with Cons.prems have "a \<notin> set pre" by blast
    then have "remove1 a (pre @ a # xs) = pre @ xs"
      by (simp add: remove1_append)
    with True Cons.IH [OF Cons.prems] show ?thesis by simp
  next
    case False
    with Cons.prems have "\<forall>p\<in>set (pre @ [a]). \<not> P p" by simp
    from Cons.IH [OF this] False show ?thesis by simp
  qed
qed

lemma check_hit_eq:
  "check_hit rnd (Some aim) e =
     e\<lparr>score := score e + sum_list (map t_points
                   (filter (\<lambda>t. check_collision t (aim_point aim)) (targets e))),
       targets := filter (\<lambda>t. \<not> check_collision t (aim_point aim)) (targets e),
       explosions := explosions e @ map burst (hit_list rnd aim (targets e)),
       played := played e @ replicate
                   (length (filter (\<lambda>t. check_collision t (aim_point aim)) (targets e))) ''hit'',
       shockwaves := shockwaves e @ map ring
                   (filter (\<lambda>t. check_collision t (aim_point aim)) (targets e)),
       tracers := tracers e @ map (trace aim)
                   (filter (\<lambda>t. check_collision t (aim_point aim)) (targets e))\<rparr>"
proof -
  have t: "fold remove1 (map snd (hit_list rnd aim (targets e))) (targets e)
           = filter (\<lambda>t. \<not> check_collision t (aim_point aim)) (targets e)"
    using fold_remove1_filter [of "[]" "\<lambda>t. check_collision t (aim_point aim)" "targets e"]
    by (simp add: hit_list_targets)
  have m: "map (f \<circ> snd) (hit_list rnd aim (targets e))
           = map f (filter (\<lambda>t. check_collision t (aim_point aim)) (targets e))" for f :: "Target \<Rightarrow> 'b"
    using hit_list_targets [of rnd aim "targets e"] by (metis map_map)
  have p: "map (\<lambda>h. ''hit'') (hit_list rnd aim (targets e))
           = replicate (length (filter (\<lambda>t. check_collision t (aim_point aim)) (targets e))) ''hit''"
    by (simp add: map_replicate_const hit_list_length)
  show ?thesis
    by (simp add: check_hit_def check_hit_loop_eq t m p)
qed

lemma check_hit_None: "check_hit rnd None e = e"
  by (simp add: check_hit_def)

text \<open>
  C1, amended. With no aim point \<open>check_hit\<close> changes nothing. With an aim point, every
  live target whose circle contains it is destroyed in that one call: the live list keeps
  exactly the targets that do not contain the point, in their order; the score grows by
  the sum of the point values of those that do; and one explosion, one "hit" cue, one
  shockwave and one tracer are added per destroyed target, in their order. Nothing else
  in the engine changes. So a single target is destroyed when a single live target
  contains the aim point: then exactly that one is removed and scored.
\<close>

theorem check_hit_every_match:
  "check_hit rnd None e = e
   \<and> check_hit rnd (Some aim) e =
     e\<lparr>score := score e + sum_list (map t_points
                   (filter (\<lambda>t. check_collision t (aim_point aim)) (targets e))),
       targets := filter (\<lambda>t. \<not> check_collision t (aim_point aim)) (targets e),
       explosions := explosions e @ map burst (hit_list rnd aim (targets e)),
       played := played e @ replicate
                   (length (filter (\<lambda>t. check_collision t (aim_point aim)) (targets e))) ''hit'',
       shockwaves := shockwaves e @ map ring
                   (filter (\<lambda>t. check_collision t (aim_point aim)) (targets e)),
       tracers := tracers e @ map (trace aim)
                   (filter (\<lambda>t. check_collision t (aim_point aim)) (targets e))\<rparr>
   \<and> length (explosions (check_hit rnd (Some aim) e)) = length (explosions e)
       + length (filter (\<lambda>t. check_collision t (aim_point aim)) (targets e))
   \<and> (targets e = pre @ t # post
       \<and> (\<forall>p\<in>set pre \<union> set post. \<not> check_collision p (aim_point aim))
       \<and> check_collision t (aim_point aim)
      \<longrightarrow> targets (check_hit rnd (Some aim) e) = pre @ post
        \<and> score (check_hit rnd (Some aim) e) = score e + t_points t)"
proof -
  have one: "targets e = pre @ t # post
       \<and> (\<forall>p\<in>set pre \<union> set post. \<not> check_collision p (aim_point aim))
       \<and> check_collision t (aim_point aim)
      \<longrightarrow> targets (check_hit rnd (Some aim) e) = pre @ post
        \<and> score (check_hit rnd (Some aim) e) = score e + t_points t"
  proof
    assume a: "targets e = pre @ t # post
       \<and> (\<forall>p\<in>set pre \<union> set post. \<not> check_collision p (aim_point aim))
       \<and> check_collision t (aim_point aim)"
    then have f1: "filter (\<lambda>t. check_collision t (aim_point aim)) pre = []"
      and f2: "filter (\<lambda>t. check_collision t (aim_point aim)) post = []"
      and f3: "filter (\<lambda>t. \<not> check_collision t (aim_point aim)) pre = pre"
      and f4: "filter (\<lambda>t. \<not> check_collision t (aim_point aim)) post = post"
      by (simp_all add: filter_empty_conv filter_id_conv)
    show "targets (check_hit rnd (Some aim) e) = pre @ post
        \<and> score (check_hit rnd (Some aim) e) = score e + t_points t"
      using a by (simp add: check_hit_eq f1 f2 f3 f4)
  qed
  have len: "length (explosions (check_hit rnd (Some aim) e)) = length (explosions e)
       + length (filter (\<lambda>t. check_collision t (aim_point aim)) (targets e))"
    by (simp add: check_hit_eq hit_list_length)
  from check_hit_None check_hit_eq one len show ?thesis by blast
qed

theorem check_hit_every_match_witness:
  "targets spread_engine =
     [Target_init 100 100 ''static'' (1280, 720) 1 1 1 1 0]
       @ Target_init 400 300 ''small'' (1280, 720) 1 1 1 1 0
       # [Target_init 700 500 ''static'' (1280, 720) 1 1 1 1 0]
   \<and> \<not> check_collision (Target_init 100 100 ''static'' (1280, 720) 1 1 1 1 0) (aim_point (405, 300))
   \<and> \<not> check_collision (Target_init 700 500 ''static'' (1280, 720) 1 1 1 1 0) (aim_point (405, 300))
   \<and> check_collision (Target_init 400 300 ''small'' (1280, 720) 1 1 1 1 0) (aim_point (405, 300))
   \<and> targets (check_hit fixed_draws (Some (405, 300)) spread_engine) =
       [Target_init 100 100 ''static'' (1280, 720) 1 1 1 1 0]
         @ [Target_init 700 500 ''static'' (1280, 720) 1 1 1 1 0]
   \<and> score (check_hit fixed_draws (Some (405, 300)) spread_engine) = score spread_engine + 30"
proof -
  have s: "targets spread_engine =
     [Target_init 100 100 ''static'' (1280, 720) 1 1 1 1 0]
       @ Target_init 400 300 ''small'' (1280, 720) 1 1 1 1 0
       # [Target_init 700 500 ''static'' (1280, 720) 1 1 1 1 0]"
    by (simp add: spread_engine_def)
  have a: "\<not> check_collision (Target_init 100 100 ''static'' (1280, 720) 1 1 1 1 0) (aim_point (405, 300))"
    by (subst plain_target_hit [OF refl]) (simp_all add: plain_target)
  have c: "\<not> check_collision (Target_init 700 500 ''static'' (1280, 720) 1 1 1 1 0) (aim_point (405, 300))"
    by (subst plain_target_hit [OF refl]) (simp_all add: plain_target)
  have b: "check_collision (Target_init 400 300 ''small'' (1280, 720) 1 1 1 1 0) (aim_point (405, 300))"
    by (subst plain_target_hit [OF refl]) (simp_all add: plain_target)
  have p: "t_points (Target_init 400 300 ''small'' (1280, 720) 1 1 1 1 0) = 30"
    by (simp add: plain_target)
  show ?thesis
    using check_hit_every_match [of fixed_draws spread_engine "(405, 300)"
        "[Target_init 100 100 ''static'' (1280, 720) 1 1 1 1 0]"
        "Target_init 400 300 ''small'' (1280, 720) 1 1 1 1 0"
        "[Target_init 700 500 ''static'' (1280, 720) 1 1 1 1 0]"] s a b c p
    by simp
qed

lemma init_fields:
  "targets (GameEngine_init sw sh t0) = [] \<and> score (GameEngine_init sw sh t0) = 0
   \<and> ammo (GameEngine_init sw sh t0) = 6 \<and> max_ammo (GameEngine_init sw sh t0) = 6
   \<and> \<not> paused (GameEngine_init sw sh t0) \<and> \<not> reloading (GameEngine_init sw sh t0)
   \<and> last_shot_time (GameEngine_init sw sh t0) = 0
   \<and> shot_cooldown_ms (GameEngine_init sw sh t0) = 250
   \<and> spawn_interval (GameEngine_init sw sh t0) = 60
   \<and> spawn_interval_min (GameEngine_init sw sh t0) = 20
   \<and> spawn_timer (GameEngine_init sw sh t0) = 0
   \<and> start_time (GameEngine_init sw sh t0) = t0
   \<and> played (GameEngine_init sw sh t0) = []
   \<and> no_ammo_msg_end_ms (GameEngine_init sw sh t0) = 0"
  by (simp add: GameEngine_init_def apply_difficulty_def difficulty_levels_def Normal_def)

text \<open>
  C1 as stated fails: with two overlapping live targets that both contain the aim point,
  one call removes both and scores both.
\<close>

theorem check_hit_overlap_counterexample:
  "length (targets overlap_engine) = 2
   \<and> list_all (\<lambda>t. check_collision t (aim_point (105, 100))) (targets overlap_engine)
   \<and> targets (check_hit fixed_draws (Some (105, 100)) overlap_engine) = []
   \<and> score (check_hit fixed_draws (Some (105, 100)) overlap_engine) = score overlap_engine + 10 + 10"
proof -
  have h1: "check_collision (Target_init 100 100 ''static'' (1280, 720) 1 1 1 1 0)
             (aim_point (105, 100))"
    by (subst plain_target_hit [OF refl]) (simp_all add: plain_target)
  have h2: "check_collision (Target_init 110 100 ''static'' (1280, 720) 1 1 1 1 0)
             (aim_point (105, 100))"
    by (subst plain_target_hit [OF refl]) (simp_all add: plain_target)
  have p: "t_points (Target_init 100 100 ''static'' (1280, 720) 1 1 1 1 0) = 10"
    "t_points (Target_init 110 100 ''static'' (1280, 720) 1 1 1 1 0) = 10"
    by (simp_all add: plain_target)
  show ?thesis
    by (simp add: check_hit_eq overlap_engine_def h1 h2 p)
qed

text \<open>The engine with two overlapping targets is what two spawns on a fresh engine give
  when both draw the type \<open>static\<close> and the positions (100, 100) and (110, 100).\<close>

lemma overlap_engine_spawned:
  "\<exists>e1. spawn_target \<lparr>sd_r = 3 / 10, sd_x = 100, sd_y = 100, sd_speed = 1, sd_ang = 0\<rparr>
           fresh_engine = Inr e1
       \<and> spawn_target \<lparr>sd_r = 3 / 10, sd_x = 110, sd_y = 100, sd_speed = 1, sd_ang = 0\<rparr>
           e1 = Inr overlap_engine"
  by (simp add: spawn_target_def weighted_choice_def overlap_engine_def fresh_engine_def
      GameEngine_init_def apply_difficulty_def difficulty_levels_def Normal_def)

section \<open>Shooting: cooldown and dry fire\<close>

lemma now_ms_1100: "now_ms (clock_1100 i) = 1100"
  by (simp add: now_ms_def clock_1100_def py_int_def)

lemma cooling_fields:
  "\<not> paused cooling_engine \<and> \<not> reloading cooling_engine \<and> ammo cooling_engine = 6
   \<and> last_shot_time cooling_engine = 1000 \<and> shot_cooldown_ms cooling_engine = 250
   \<and> played cooling_engine = [] \<and> no_ammo_msg_end_ms cooling_engine = 0"
  by (simp add: cooling_engine_def init_fields)

text \<open>
  C2 as stated fails for an empty magazine: an attempt at 1100 ms, within the 250 ms
  cooldown of a shot at 1000 ms, with no ammo, is not ignored: it plays the "dry" cue and
  arms the "no ammo" message, because the ammo test comes before the cooldown test.
\<close>

theorem try_shoot_dry_in_cooldown_counterexample:
  "\<not> paused dry_engine \<and> \<not> reloading dry_engine \<and> ammo dry_engine = 0
   \<and> now_ms (clock_1100 0) - last_shot_time dry_engine < shot_cooldown_ms dry_engine
   \<and> played (try_shoot clock_1100 fixed_draws None dry_engine) = played dry_engine @ [''dry'']
   \<and> no_ammo_msg_end_ms (try_shoot clock_1100 fixed_draws None dry_engine) = 1800
   \<and> try_shoot clock_1100 fixed_draws None dry_engine \<noteq> dry_engine"
proof -
  have f: "\<not> paused dry_engine" "\<not> reloading dry_engine" "ammo dry_engine = 0"
    "last_shot_time dry_engine = 1000" "shot_cooldown_ms dry_engine = 250"
    "played dry_engine = []" "no_ammo_msg_end_ms dry_engine = 0"
    by (simp_all add: dry_engine_def cooling_fields)
  have r: "try_shoot clock_1100 fixed_draws None dry_engine
           = (play_sound ''dry'' dry_engine)\<lparr>no_ammo_msg_end_ms := 1800\<rparr>"
    by (simp add: try_shoot_def f now_ms_1100)
  have "no_ammo_msg_end_ms (try_shoot clock_1100 fixed_draws None dry_engine) = 1800"
    by (simp add: r)
  then have ne: "try_shoot clock_1100 fixed_draws None dry_engine \<noteq> dry_engine"
    using f(7) by auto
  show ?thesis
    using ne by (simp add: f now_ms_1100 r play_sound_def)
qed

text \<open>
  C2, amended. A shoot attempt made within \<open>shot_cooldown_ms\<close> of the last successful
  shot, when not paused, not reloading and with ammo left, is silently ignored: the engine
  is returned as it was (no cue, no ammo change, no other change).
\<close>

theorem try_shoot_in_cooldown:
  assumes "\<not> paused e" and "\<not> reloading e" and "0 < ammo e"
    and "now_ms (clk 0) - last_shot_time e < shot_cooldown_ms e"
  shows "try_shoot clk rnd aim e = e"
  using assms by (simp add: try_shoot_def)

theorem try_shoot_in_cooldown_witness:
  "\<not> paused cooling_engine \<and> \<not> reloading cooling_engine \<and> 0 < ammo cooling_engine
   \<and> now_ms (clock_1100 0) - last_shot_time cooling_engine < shot_cooldown_ms cooling_engine
   \<and> try_shoot clock_1100 fixed_draws (Some (5, 5)) cooling_engine = cooling_engine"
proof -
  have h: "\<not> paused cooling_engine" "\<not> reloading cooling_engine" "0 < ammo cooling_engine"
    "now_ms (clock_1100 0) - last_shot_time cooling_engine < shot_cooldown_ms cooling_engine"
    by (simp_all add: cooling_fields now_ms_1100)
  from try_shoot_in_cooldown [where e = cooling_engine and clk = clock_1100
      and rnd = fixed_draws and aim = "Some (5, 5)"] h
  show ?thesis by simp
qed

text \<open>
  C6. A shoot attempt with no ammo, when not paused and not reloading, hands the "dry"
  cue to the sound player and sets the expiry of the "no ammo" message to the attempt
  time plus 700 ms, which is not before the attempt time; nothing else in the engine
  changes, in particular none of ammo, capacity, reload state and shot timing.
\<close>

theorem try_shoot_dry:
  assumes "\<not> paused e" and "\<not> reloading e" and "ammo e = 0"
  shows "try_shoot clk rnd aim e =
           e\<lparr>played := played e @ [''dry''], no_ammo_msg_end_ms := now_ms (clk 0) + 700\<rparr>
         \<and> played (try_shoot clk rnd aim e) = played e @ [''dry'']
         \<and> no_ammo_msg_end_ms (try_shoot clk rnd aim e) = now_ms (clk 0) + 700
         \<and> now_ms (clk 0) \<le> no_ammo_msg_end_ms (try_shoot clk rnd aim e)
         \<and> ammo (try_shoot clk rnd aim e) = ammo e
         \<and> max_ammo (try_shoot clk rnd aim e) = max_ammo e
         \<and> reloading (try_shoot clk rnd aim e) = reloading e
         \<and> reload_started_at (try_shoot clk rnd aim e) = reload_started_at e
         \<and> last_shot_time (try_shoot clk rnd aim e) = last_shot_time e
         \<and> shot_cooldown_ms (try_shoot clk rnd aim e) = shot_cooldown_ms e"
  using assms by (simp add: try_shoot_def play_sound_def)

theorem try_shoot_dry_witness:
  "\<not> paused dry_engine \<and> \<not> reloading dry_engine \<and> ammo dry_engine = 0
   \<and> try_shoot clock_1100 fixed_draws (Some (5, 5)) dry_engine =
       dry_engine\<lparr>played := played dry_engine @ [''dry''], no_ammo_msg_end_ms := 1800\<rparr>
   \<and> ammo (try_shoot clock_1100 fixed_draws (Some (5, 5)) dry_engine) = 0"
proof -
  have h: "\<not> paused dry_engine" "\<not> reloading dry_engine" "ammo dry_engine = 0"
    by (simp_all add: dry_engine_def cooling_fields)
  from try_shoot_dry [where e = dry_engine and clk = clock_1100
      and rnd = fixed_draws and aim = "Some (5, 5)"] h
  show ?thesis
    by (simp add: now_ms_1100)
qed

section \<open>What each operation leaves alone\<close>

lemma same_setup_refl [simp]: "same_setup e e"
  by (simp add: same_setup_def)

lemma same_setup_trans: "same_setup a b \<Longrightarrow> same_setup b c \<Longrightarrow> same_setup a c"
  by (simp add: same_setup_def)

lemma check_hit_keeps:
  "same_setup e (check_hit rnd aim e) \<and> ammo (check_hit rnd aim e) = ammo e
   \<and> paused (check_hit rnd aim e) = paused e \<and> reloading (check_hit rnd aim e) = reloading e
   \<and> shoot_key_held (check_hit rnd aim e) = shoot_key_held e
   \<and> last_shot_time (check_hit rnd aim e) = last_shot_time e"
  by (cases aim) (simp_all add: check_hit_None check_hit_eq same_setup_def)

lemma shoot_eq:
  "shoot clk rnd aim e =
     (if can_shoot (clk 0) e
      then check_hit rnd aim
             (play_sound ''shot'' (spawn_muzzle_flash (clk 2) aim
                (e\<lparr>last_shot_time := now_ms (clk 1), ammo := ammo e - 1\<rparr>)))
      else e)"
  by (simp add: shoot_def Let_def)

lemma shoot_keeps:
  "same_setup e (shoot clk rnd aim e)
   \<and> paused (shoot clk rnd aim e) = paused e \<and> reloading (shoot clk rnd aim e) = reloading e
   \<and> shoot_key_held (shoot clk rnd aim e) = shoot_key_held e
   \<and> ammo (shoot clk rnd aim e) = (if can_shoot (clk 0) e then ammo e - 1 else ammo e)"
  using check_hit_keeps [of "play_sound ''shot'' (spawn_muzzle_flash (clk 2) aim
                (e\<lparr>last_shot_time := now_ms (clk 1), ammo := ammo e - 1\<rparr>))" rnd aim]
  by (cases aim)
     (simp_all add: shoot_eq play_sound_def spawn_muzzle_flash_def same_setup_def)

lemma can_shoot_iff:
  "can_shoot t e \<longleftrightarrow>
     \<not> paused e \<and> \<not> reloading e \<and> 0 < ammo e
     \<and> shot_cooldown_ms e \<le> now_ms t - last_shot_time e"
  by (auto simp: can_shoot_def)

lemma try_shoot_keeps:
  "same_setup e (try_shoot clk rnd aim e)
   \<and> paused (try_shoot clk rnd aim e) = paused e
   \<and> reloading (try_shoot clk rnd aim e) = reloading e
   \<and> shoot_key_held (try_shoot clk rnd aim e) = shoot_key_held e
   \<and> ammo (try_shoot clk rnd aim e) =
       (if \<not> paused e \<and> \<not> reloading e \<and> 0 < ammo e
           \<and> shot_cooldown_ms e \<le> now_ms (clk 0) - last_shot_time e
           \<and> shot_cooldown_ms e \<le> now_ms (clk 1) - last_shot_time e
        then ammo e - 1 else ammo e)"
  using shoot_keeps [of e "\<lambda>i. clk (Suc i)" rnd aim]
  by (simp add: try_shoot_def Let_def can_shoot_iff play_sound_def same_setup_def)

lemma try_shoot_paused: "paused e \<Longrightarrow> try_shoot clk rnd aim e = e"
  by (simp add: try_shoot_def)

lemma shoot_stage_keeps:
  "same_setup e (shoot_stage inp e) \<and> paused (shoot_stage inp e) = paused e
   \<and> reloading (shoot_stage inp e) = reloading e"
  using try_shoot_keeps [of e "clk_gesture inp" "rnd_gesture inp" "aim_pos inp"]
    try_shoot_keeps [of "try_shoot (clk_gesture inp) (rnd_gesture inp) (aim_pos inp) e"
      "clk_key inp" "rnd_key inp" "aim_pos inp"]
    try_shoot_keeps [of e "clk_key inp" "rnd_key inp" "aim_pos inp"]
  by (auto simp: shoot_stage_def Let_def same_setup_def)

lemma shoot_stage_paused: "paused e \<Longrightarrow> shoot_stage inp e = e"
  by (simp add: shoot_stage_def Let_def try_shoot_paused)

lemma apply_difficulty_ammo:
  "ammo_in_range (apply_difficulty level e)
   \<and> ammo (apply_difficulty level e) = max_ammo (apply_difficulty level e)"
  by (simp add: ammo_in_range_def apply_difficulty_def difficulty_levels_def Easy_def Normal_def
      Hard_def Let_def)

lemma shoot_ammo: "ammo_in_range e \<Longrightarrow> ammo_in_range (shoot clk rnd aim e)"
  using shoot_keeps [of e clk rnd aim]
  by (auto simp: ammo_in_range_def same_setup_def can_shoot_iff)

lemma try_shoot_ammo: "ammo_in_range e \<Longrightarrow> ammo_in_range (try_shoot clk rnd aim e)"
  using try_shoot_keeps [of e clk rnd aim]
  by (auto simp: ammo_in_range_def same_setup_def)

lemma shoot_stage_ammo: "ammo_in_range e \<Longrightarrow> ammo_in_range (shoot_stage inp e)"
  by (simp add: shoot_stage_def Let_def try_shoot_ammo)

lemma start_reload_keeps:
  "same_setup e (start_reload t e) \<and> paused (start_reload t e) = paused e
   \<and> ammo (start_reload t e) = ammo e"
  by (simp add: start_reload_def same_setup_def)

lemma update_reload_keeps:
  "same_setup e (update_reload t e) \<and> paused (update_reload t e) = paused e"
  by (simp add: update_reload_def play_sound_def same_setup_def)

lemma update_reload_ammo: "ammo_in_range e \<Longrightarrow> ammo_in_range (update_reload t e)"
  by (simp add: update_reload_def play_sound_def ammo_in_range_def)

lemma pause_edge_keeps:
  "same_setup e (pause_edge inp e) \<and> ammo (pause_edge inp e) = ammo e"
  by (simp add: pause_edge_def toggle_pause_def same_setup_def)

lemma reload_edge_keeps:
  "same_setup e (reload_edge inp e) \<and> paused (reload_edge inp e) = paused e
   \<and> ammo (reload_edge inp e) = ammo e"
  by (simp add: reload_edge_def start_reload_def same_setup_def)

lemma input_stage_keeps:
  "same_setup e (input_stage inp e)
   \<and> paused (input_stage inp e) = paused (pause_edge inp e)"
proof -
  let ?a = "pause_edge inp e"
  let ?b = "reload_edge inp ?a"
  let ?c = "shoot_stage inp ?b"
  have "same_setup e ?a" by (simp add: pause_edge_keeps)
  moreover have "same_setup ?a ?b" by (simp add: reload_edge_keeps)
  moreover have "same_setup ?b ?c" by (simp add: shoot_stage_keeps)
  moreover have "same_setup ?c (update_reload (t_reload inp) ?c)" by (simp add: update_reload_keeps)
  ultimately have "same_setup e (input_stage inp e)"
    unfolding input_stage_def by (blast intro: same_setup_trans)
  moreover have "paused (input_stage inp e) = paused ?a"
    by (simp add: input_stage_def update_reload_keeps shoot_stage_keeps reload_edge_keeps)
  ultimately show ?thesis by simp
qed

lemma input_stage_ammo: "ammo_in_range e \<Longrightarrow> ammo_in_range (input_stage inp e)"
proof -
  assume a: "ammo_in_range e"
  have "ammo_in_range (pause_edge inp e)"
    using a pause_edge_keeps [of e inp] by (simp add: ammo_in_range_def same_setup_def)
  then have "ammo_in_range (reload_edge inp (pause_edge inp e))"
    using reload_edge_keeps [of "pause_edge inp e" inp] by (simp add: ammo_in_range_def same_setup_def)
  then show ?thesis
    by (simp add: input_stage_def update_reload_ammo shoot_stage_ammo)
qed

section \<open>The stages of one pass\<close>

lemma weighted_choice_total: "items \<noteq> [] \<Longrightarrow> \<exists>name. weighted_choice r items = Inr name"
  by (simp add: weighted_choice_def split: option.splits)

lemma spawn_target_total:
  assumes "spawn_weights e \<noteq> []" and "100 \<le> screen_width e" and "100 \<le> screen_height e"
  shows "\<exists>e'. spawn_target d e = Inr e'"
proof -
  from weighted_choice_total [OF assms(1)] obtain name
    where "weighted_choice (sd_r d) (spawn_weights e) = Inr name" by blast
  with assms(2,3) show ?thesis by (simp add: spawn_target_def)
qed

lemma spawn_target_keeps:
  "spawn_target d e = Inr e' \<Longrightarrow>
     same_setup e e' \<and> ammo e' = ammo e \<and> paused e' = paused e
     \<and> length (targets e') = length (targets e) + 1
     \<and> explosions e' = explosions e \<and> muzzle_flashes e' = muzzle_flashes e
     \<and> shockwaves e' = shockwaves e \<and> tracers e' = tracers e"
  by (auto simp: spawn_target_def same_setup_def split: sum.splits if_splits)

lemma maybe_increase_difficulty_eq:
  "maybe_increase_difficulty t e =
     e\<lparr>spawn_interval := max (spawn_interval_min e) (60 - \<lfloor>(t - start_time e) / 20\<rfloor> * 5)\<rparr>"
  by (simp add: maybe_increase_difficulty_def Let_def)

lemma spawn_stage_paused: "paused e \<Longrightarrow> spawn_stage inp e = Inr e"
  by (simp add: spawn_stage_def)

lemma spawn_stage_spawn:
  assumes "spawn_stage inp e = Inr e'" and "\<not> paused e" and "spawn_interval e \<le> spawn_timer e + 1"
  shows "spawn_interval e' = max (spawn_interval_min e) (60 - \<lfloor>(t_difficulty inp - start_time e) / 20\<rfloor> * 5)
    \<and> spawn_timer e' = 0 \<and> length (targets e') = length (targets e) + 1
    \<and> ammo e' = ammo e \<and> max_ammo e' = max_ammo e"
proof -
  let ?e1 = "e\<lparr>spawn_timer := spawn_timer e + 1\<rparr>"
  from assms obtain e2 where s: "spawn_target (draw_spawn inp) ?e1 = Inr e2"
    and r: "e' = (maybe_increase_difficulty (t_difficulty inp) (e2\<lparr>spawn_timer := 0\<rparr>))
                  \<lparr>targets := map update (targets (maybe_increase_difficulty (t_difficulty inp) (e2\<lparr>spawn_timer := 0\<rparr>)))\<rparr>"
    by (auto simp: spawn_stage_def Let_def split: sum.splits)
  from spawn_target_keeps [OF s] show ?thesis
    by (simp add: r maybe_increase_difficulty_eq same_setup_def)
qed

lemma spawn_stage_wait:
  assumes "\<not> paused e" and "\<not> spawn_interval e \<le> spawn_timer e + 1"
  shows "spawn_stage inp e =
           Inr (e\<lparr>spawn_timer := spawn_timer e + 1, targets := map update (targets e)\<rparr>)"
  using assms by (simp add: spawn_stage_def Let_def)

lemma spawn_stage_total:
  assumes "spawn_weights e \<noteq> []" and "100 \<le> screen_width e" and "100 \<le> screen_height e"
  shows "\<exists>e'. spawn_stage inp e = Inr e'"
proof -
  let ?e1 = "e\<lparr>spawn_timer := spawn_timer e + 1\<rparr>"
  have "\<exists>e2. spawn_target (draw_spawn inp) ?e1 = Inr e2"
    using assms by (intro spawn_target_total) simp_all
  then obtain e2 where "spawn_target (draw_spawn inp) ?e1 = Inr e2" by blast
  then show ?thesis
    by (simp add: spawn_stage_def Let_def)
qed

lemma spawn_stage_ammo: "spawn_stage inp e = Inr e' \<Longrightarrow> ammo_in_range e \<Longrightarrow> ammo_in_range e'"
proof (cases "paused e")
  case True
  assume "spawn_stage inp e = Inr e'" "ammo_in_range e"
  with True show ?thesis by (simp add: spawn_stage_paused)
next
  case False
  assume a: "spawn_stage inp e = Inr e'" "ammo_in_range e"
  show ?thesis
  proof (cases "spawn_interval e \<le> spawn_timer e + 1")
    case True
    from spawn_stage_spawn [OF a(1) False True] a(2) show ?thesis
      by (simp add: ammo_in_range_def)
  next
    case w: False
    from spawn_stage_wait [OF False w, of inp] a show ?thesis
      by (auto simp: ammo_in_range_def)
  qed
qed

lemma update_effects_eq:
  "update_effects inp e =
     e\<lparr>explosions := filter (\<lambda>ex. particles ex \<noteq> []) (map (age_explosion (dt_ms inp)) (explosions e)),
       muzzle_flashes := filter (\<lambda>m. now_ms (t_flash inp) < m_end m) (muzzle_flashes e),
       shockwaves := filter (\<lambda>s. \<not> shockwave_done s) (map (age_shockwave (dt_ms inp)) (shockwaves e)),
       tracers := filter (\<lambda>tr. 0 < tr_life tr) (map (age_tracer (dt_ms inp)) (tracers e))\<rparr>"
  by (simp add: update_effects_def update_tracers_def update_shockwaves_def
      update_muzzle_flashes_def update_explosions_def not_le)

lemma run_frame_eq:
  "run_frame inp e = Inr e' \<longleftrightarrow>
     (\<exists>e1. spawn_stage inp (input_stage inp e) = Inr e1 \<and> e' = update_effects inp e1)"
  by (auto simp: run_frame_def split: sum.splits)

lemma run_frame_ammo: "run_frame inp e = Inr e' \<Longrightarrow> ammo_in_range e \<Longrightarrow> ammo_in_range e'"
proof -
  assume a: "run_frame inp e = Inr e'" "ammo_in_range e"
  then obtain e1 where s: "spawn_stage inp (input_stage inp e) = Inr e1"
    and r: "e' = update_effects inp e1"
    by (auto simp: run_frame_eq)
  from spawn_stage_ammo [OF s input_stage_ammo [OF a(2)]] show ?thesis
    by (simp add: r update_effects_eq ammo_in_range_def)
qed

lemma run_frame_total:
  assumes "spawn_weights e \<noteq> []" and "100 \<le> screen_width e" and "100 \<le> screen_height e"
  shows "\<exists>e'. run_frame inp e = Inr e'"
proof -
  have k: "same_setup e (input_stage inp e)" by (simp add: input_stage_keeps)
  have "\<exists>e1. spawn_stage inp (input_stage inp e) = Inr e1"
    using assms k by (intro spawn_stage_total) (simp_all add: same_setup_def)
  then show ?thesis by (auto simp: run_frame_eq)
qed

lemma reachable_ammo: "reachable e \<Longrightarrow> ammo_in_range e"
proof (induction rule: reachable.induct)
  case (r_init sw sh t0)
  show ?case by (simp add: GameEngine_init_def apply_difficulty_ammo)
next
  case (r_pause e)
  then show ?case by (simp add: toggle_pause_def ammo_in_range_def)
next
  case (r_key e b)
  then show ?case by (simp add: ammo_in_range_def)
next
  case (r_difficulty e level)
  show ?case by (simp add: apply_difficulty_ammo)
next
  case (r_reload e t)
  then show ?case by (simp add: start_reload_def ammo_in_range_def)
next
  case (r_reload_done e t)
  then show ?case by (simp add: update_reload_ammo)
next
  case (r_shoot e clk rnd aim)
  then show ?case by (simp add: shoot_ammo)
next
  case (r_try_shoot e clk rnd aim)
  then show ?case by (simp add: try_shoot_ammo)
next
  case (r_hit e rnd aim)
  then show ?case using check_hit_keeps [of e rnd aim] by (simp add: ammo_in_range_def same_setup_def)
next
  case (r_frame e inp e')
  then show ?case by (simp add: run_frame_ammo)
qed

lemma spawn_stage_setup:
  assumes "spawn_stage inp e = Inr e'"
  shows "spawn_weights e' = spawn_weights e \<and> screen_width e' = screen_width e
    \<and> screen_height e' = screen_height e"
proof (cases "paused e")
  case True
  with assms show ?thesis by (simp add: spawn_stage_paused)
next
  case False
  show ?thesis
  proof (cases "spawn_interval e \<le> spawn_timer e + 1")
    case True
    let ?e1 = "e\<lparr>spawn_timer := spawn_timer e + 1\<rparr>"
    from assms False True obtain e2 where s: "spawn_target (draw_spawn inp) ?e1 = Inr e2"
      and r: "e' = (maybe_increase_difficulty (t_difficulty inp) (e2\<lparr>spawn_timer := 0\<rparr>))
                  \<lparr>targets := map update (targets (maybe_increase_difficulty (t_difficulty inp) (e2\<lparr>spawn_timer := 0\<rparr>)))\<rparr>"
      by (auto simp: spawn_stage_def Let_def split: sum.splits)
    from spawn_target_keeps [OF s] show ?thesis
      by (simp add: r maybe_increase_difficulty_eq same_setup_def)
  next
    case w: False
    from spawn_stage_wait [OF False w, of inp] assms show ?thesis by auto
  qed
qed

lemma run_frame_setup:
  assumes "run_frame inp e = Inr e'"
  shows "spawn_weights e' = spawn_weights e \<and> screen_width e' = screen_width e
    \<and> screen_height e' = screen_height e"
proof -
  from assms obtain e1 where s: "spawn_stage inp (input_stage inp e) = Inr e1"
    and r: "e' = update_effects inp e1"
    by (auto simp: run_frame_eq)
  from spawn_stage_setup [OF s] input_stage_keeps [of e inp] show ?thesis
    by (simp add: r update_effects_eq same_setup_def)
qed

lemma apply_difficulty_weights: "spawn_weights (apply_difficulty level e) \<noteq> []"
  by (simp add: apply_difficulty_def difficulty_levels_def Easy_def Normal_def Hard_def Let_def)

lemma reachable_weights: "reachable e \<Longrightarrow> spawn_weights e \<noteq> []"
proof (induction rule: reachable.induct)
  case (r_init sw sh t0)
  show ?case by (simp add: GameEngine_init_def apply_difficulty_weights)
next
  case (r_pause e)
  then show ?case by (simp add: toggle_pause_def)
next
  case (r_key e b)
  then show ?case by simp
next
  case (r_difficulty e level)
  show ?case by (simp add: apply_difficulty_weights)
next
  case (r_reload e t)
  then show ?case using start_reload_keeps [of e t] by (simp add: same_setup_def)
next
  case (r_reload_done e t)
  then show ?case using update_reload_keeps [of e t] by (simp add: same_setup_def)
next
  case (r_shoot e clk rnd aim)
  then show ?case using shoot_keeps [of e clk rnd aim] by (simp add: same_setup_def)
next
  case (r_try_shoot e clk rnd aim)
  then show ?case using try_shoot_keeps [of e clk rnd aim] by (simp add: same_setup_def)
next
  case (r_hit e rnd aim)
  then show ?case using check_hit_keeps [of e rnd aim] by (simp add: same_setup_def)
next
  case (r_frame e inp e')
  then show ?case using run_frame_setup [of inp e e'] by simp
qed

text \<open>From a reachable state on a screen of at least 100 by 100, a pass of the loop
  returns: it raises neither of the two errors.\<close>

lemma reachable_frame_returns:
  "reachable e \<Longrightarrow> 100 \<le> screen_width e \<Longrightarrow> 100 \<le> screen_height e \<Longrightarrow>
     \<exists>e'. run_frame inp e = Inr e'"
  by (intro run_frame_total reachable_weights)

section \<open>The ammo machine and the spawn schedule\<close>

lemma fresh_fields:
  "\<not> paused fresh_engine \<and> \<not> reloading fresh_engine \<and> ammo fresh_engine = 6
   \<and> max_ammo fresh_engine = 6 \<and> last_shot_time fresh_engine = 0
   \<and> shot_cooldown_ms fresh_engine = 250 \<and> spawn_interval fresh_engine = 60
   \<and> spawn_interval_min fresh_engine = 20 \<and> spawn_timer fresh_engine = 0
   \<and> start_time fresh_engine = 0 \<and> targets fresh_engine = []"
  by (simp add: fresh_engine_def init_fields)

lemma fresh_more_fields:
  "screen_width fresh_engine = 1280 \<and> screen_height fresh_engine = 720
   \<and> spawn_weights fresh_engine \<noteq> [] \<and> \<not> shoot_key_held fresh_engine
   \<and> \<not> pause_gesture_active fresh_engine \<and> \<not> reload_gesture_active fresh_engine
   \<and> explosions fresh_engine = [] \<and> shockwaves fresh_engine = []
   \<and> tracers fresh_engine = [] \<and> muzzle_flashes fresh_engine = []"
  by (simp add: fresh_engine_def GameEngine_init_def apply_difficulty_def difficulty_levels_def
      Normal_def)

text \<open>
  C5. In every reachable state the ammo count is between 0 and \<open>max_ammo\<close>, and a shot, a
  shoot attempt, a reload request, a reload update and a difficulty change each lead to
  a state where it is again. A reload request when already reloading, or with a full
  magazine, leaves the engine as it was. A shot changes the ammo count only by taking one
  round, and only when the engine is not reloading, not paused, has ammo left and at
  least \<open>shot_cooldown_ms\<close> have passed since \<open>last_shot_time\<close>, at the clock reading of
  \<open>_can_shoot\<close> and, for \<open>_try_shoot\<close>, at its own reading as well.
\<close>

theorem ammo_machine:
  assumes "reachable e"
  shows
   "0 \<le> ammo e \<and> ammo e \<le> max_ammo e
    \<and> ammo_in_range (shoot clk rnd aim e) \<and> ammo_in_range (try_shoot clk rnd aim e)
    \<and> ammo_in_range (start_reload t e) \<and> ammo_in_range (update_reload t e)
    \<and> ammo_in_range (apply_difficulty level e)
    \<and> (reloading e \<or> ammo e = max_ammo e \<longrightarrow> start_reload t e = e)
    \<and> (ammo (shoot clk rnd aim e) \<noteq> ammo e \<longrightarrow>
         \<not> reloading e \<and> \<not> paused e \<and> 0 < ammo e
         \<and> shot_cooldown_ms e \<le> now_ms (clk 0) - last_shot_time e
         \<and> ammo (shoot clk rnd aim e) = ammo e - 1)
    \<and> (ammo (try_shoot clk rnd aim e) \<noteq> ammo e \<longrightarrow>
         \<not> reloading e \<and> \<not> paused e \<and> 0 < ammo e
         \<and> shot_cooldown_ms e \<le> now_ms (clk 0) - last_shot_time e
         \<and> shot_cooldown_ms e \<le> now_ms (clk 1) - last_shot_time e
         \<and> ammo (try_shoot clk rnd aim e) = ammo e - 1)"
proof -
  have r: "ammo_in_range e" using assms by (rule reachable_ammo)
  have a: "0 \<le> ammo e \<and> ammo e \<le> max_ammo e"
    using r by (simp add: ammo_in_range_def)
  have b: "ammo_in_range (shoot clk rnd aim e)" "ammo_in_range (try_shoot clk rnd aim e)"
    "ammo_in_range (update_reload t e)" "ammo_in_range (apply_difficulty level e)"
    using r by (simp_all add: shoot_ammo try_shoot_ammo update_reload_ammo apply_difficulty_ammo)
  have c: "ammo_in_range (start_reload t e)"
    using r by (simp add: start_reload_def ammo_in_range_def)
  have d: "reloading e \<or> ammo e = max_ammo e \<longrightarrow> start_reload t e = e"
    by (auto simp: start_reload_def)
  have s: "ammo (shoot clk rnd aim e) \<noteq> ammo e \<longrightarrow>
         \<not> reloading e \<and> \<not> paused e \<and> 0 < ammo e
         \<and> shot_cooldown_ms e \<le> now_ms (clk 0) - last_shot_time e
         \<and> ammo (shoot clk rnd aim e) = ammo e - 1"
    using shoot_keeps [of e clk rnd aim] by (auto simp: can_shoot_iff)
  have ts: "ammo (try_shoot clk rnd aim e) \<noteq> ammo e \<longrightarrow>
         \<not> reloading e \<and> \<not> paused e \<and> 0 < ammo e
         \<and> shot_cooldown_ms e \<le> now_ms (clk 0) - last_shot_time e
         \<and> shot_cooldown_ms e \<le> now_ms (clk 1) - last_shot_time e
         \<and> ammo (try_shoot clk rnd aim e) = ammo e - 1"
    using try_shoot_keeps [of e clk rnd aim] by (auto split: if_splits)
  from a b c d s ts show ?thesis by blast
qed

theorem ammo_machine_witness:
  "reachable fresh_engine
   \<and> 0 \<le> ammo fresh_engine \<and> ammo fresh_engine \<le> max_ammo fresh_engine
   \<and> ammo fresh_engine = max_ammo fresh_engine
   \<and> start_reload 5 fresh_engine = fresh_engine
   \<and> ammo (shoot clock_1100 fixed_draws None fresh_engine) \<noteq> ammo fresh_engine
   \<and> ammo (shoot clock_1100 fixed_draws None fresh_engine) = ammo fresh_engine - 1
   \<and> ammo (try_shoot clock_1100 fixed_draws None fresh_engine) \<noteq> ammo fresh_engine
   \<and> ammo (try_shoot clock_1100 fixed_draws None fresh_engine) = ammo fresh_engine - 1
   \<and> 0 < ammo fresh_engine \<and> \<not> paused fresh_engine \<and> \<not> reloading fresh_engine
   \<and> shot_cooldown_ms fresh_engine \<le> now_ms (clock_1100 0) - last_shot_time fresh_engine"
proof -
  have r: "reachable fresh_engine"
    unfolding fresh_engine_def by (rule r_init)
  have s: "ammo (shoot clock_1100 fixed_draws None fresh_engine) = 5"
    using shoot_keeps [of fresh_engine clock_1100 fixed_draws None]
    by (simp add: can_shoot_iff fresh_fields now_ms_1100)
  have ts: "ammo (try_shoot clock_1100 fixed_draws None fresh_engine) = 5"
    using try_shoot_keeps [of fresh_engine clock_1100 fixed_draws None]
    by (simp add: fresh_fields now_ms_1100)
  show ?thesis
    using ammo_machine [OF r, of clock_1100 fixed_draws None 5 "''Normal''"] r s ts
    by (simp add: fresh_fields now_ms_1100)
qed

text \<open>
  C3. In a pass of the loop that spawns a target (not paused when the loop reaches the
  spawn block, and the advanced spawn timer has reached the interval) the spawn interval
  becomes \<open>max(spawn_interval_min, 60 - floor(elapsed / 20) * 5)\<close>, with \<open>elapsed\<close> the
  seconds since \<open>start_time\<close>, one target is added and the timer is reset; in a pass that
  does not spawn, the interval is left as it was. Shooting, hit resolution, reload
  request, reload update and pause leave it as it was too: the formula is applied at a
  spawn and nowhere else. (A pass returns from every reachable state on a screen of at
  least 100 by 100: \<open>reachable_frame_returns\<close>.)
\<close>

theorem spawn_interval_recomputed:
  assumes "run_frame inp e = Inr e'"
  shows
   "(spawns inp e \<longrightarrow>
       spawn_interval e' =
         max (spawn_interval_min e) (60 - \<lfloor>(t_difficulty inp - start_time e) / 20\<rfloor> * 5)
       \<and> length (targets e') = length (targets (input_stage inp e)) + 1
       \<and> spawn_timer e' = 0)
    \<and> (\<not> spawns inp e \<longrightarrow>
       spawn_interval e' = spawn_interval e
       \<and> length (targets e') = length (targets (input_stage inp e)))
    \<and> spawn_interval (try_shoot clk rnd aim e) = spawn_interval e
    \<and> spawn_interval (check_hit rnd aim e) = spawn_interval e
    \<and> spawn_interval (start_reload t e) = spawn_interval e
    \<and> spawn_interval (update_reload t e) = spawn_interval e
    \<and> spawn_interval (toggle_pause e) = spawn_interval e"
proof -
  let ?i = "input_stage inp e"
  from assms obtain e1 where s: "spawn_stage inp ?i = Inr e1"
    and r: "e' = update_effects inp e1"
    by (auto simp: run_frame_eq)
  have k: "spawn_timer ?i = spawn_timer e" "spawn_interval ?i = spawn_interval e"
    "spawn_interval_min ?i = spawn_interval_min e" "start_time ?i = start_time e"
    using input_stage_keeps [of e inp] by (simp_all add: same_setup_def)
  have yes: "spawns inp e \<longrightarrow>
       spawn_interval e' =
         max (spawn_interval_min e) (60 - \<lfloor>(t_difficulty inp - start_time e) / 20\<rfloor> * 5)
       \<and> length (targets e') = length (targets ?i) + 1 \<and> spawn_timer e' = 0"
  proof
    assume "spawns inp e"
    then have p: "\<not> paused ?i" and d: "spawn_interval ?i \<le> spawn_timer ?i + 1"
      by (simp_all add: spawns_def k)
    from spawn_stage_spawn [OF s p d] show "spawn_interval e' =
         max (spawn_interval_min e) (60 - \<lfloor>(t_difficulty inp - start_time e) / 20\<rfloor> * 5)
       \<and> length (targets e') = length (targets ?i) + 1 \<and> spawn_timer e' = 0"
      by (simp add: r update_effects_eq k)
  qed
  have no: "\<not> spawns inp e \<longrightarrow>
       spawn_interval e' = spawn_interval e \<and> length (targets e') = length (targets ?i)"
  proof
    assume n: "\<not> spawns inp e"
    show "spawn_interval e' = spawn_interval e \<and> length (targets e') = length (targets ?i)"
    proof (cases "paused ?i")
      case True
      with s have "e1 = ?i" by (simp add: spawn_stage_paused)
      then show ?thesis by (simp add: r update_effects_eq k)
    next
      case False
      with n have w: "\<not> spawn_interval ?i \<le> spawn_timer ?i + 1"
        by (simp add: spawns_def k)
      from spawn_stage_wait [OF False w, of inp] s show ?thesis
        by (auto simp: r update_effects_eq k)
    qed
  qed
  have others: "spawn_interval (try_shoot clk rnd aim e) = spawn_interval e
    \<and> spawn_interval (check_hit rnd aim e) = spawn_interval e
    \<and> spawn_interval (start_reload t e) = spawn_interval e
    \<and> spawn_interval (update_reload t e) = spawn_interval e
    \<and> spawn_interval (toggle_pause e) = spawn_interval e"
    using try_shoot_keeps [of e clk rnd aim] check_hit_keeps [of e rnd aim]
      start_reload_keeps [of e t] update_reload_keeps [of e t]
    by (simp add: same_setup_def toggle_pause_def)
  from yes no others show ?thesis by blast
qed

lemma due_fields:
  "spawn_weights due_engine \<noteq> [] \<and> screen_width due_engine = 1280
   \<and> screen_height due_engine = 720 \<and> \<not> paused due_engine
   \<and> \<not> pause_gesture_active due_engine
   \<and> spawn_interval due_engine = 60 \<and> spawn_timer due_engine = 59
   \<and> spawn_interval_min due_engine = 20 \<and> start_time due_engine = 0"
  by (simp add: due_engine_def fresh_fields fresh_more_fields)

lemma paused_after_input:
  "paused (input_stage inp e) \<longleftrightarrow>
     (if g_pause inp \<and> \<not> pause_gesture_active e then \<not> paused e else paused e)"
  by (simp add: input_stage_keeps pause_edge_def toggle_pause_def)

theorem spawn_interval_recomputed_witness:
  "\<exists>e1 e2. run_frame idle_input due_engine = Inr e1
     \<and> spawns idle_input due_engine
     \<and> spawn_interval due_engine = 60 \<and> spawn_interval e1 = 50 \<and> spawn_timer e1 = 0
     \<and> run_frame idle_input fresh_engine = Inr e2
     \<and> \<not> spawns idle_input fresh_engine
     \<and> spawn_interval e2 = 60"
proof -
  obtain e1 where r1: "run_frame idle_input due_engine = Inr e1"
    using run_frame_total [of due_engine idle_input] by (auto simp: due_fields)
  obtain e2 where r2: "run_frame idle_input fresh_engine = Inr e2"
    using run_frame_total [of fresh_engine idle_input] by (auto simp: fresh_more_fields)
  have g: "\<not> g_pause idle_input" "t_difficulty idle_input = 45"
    by (simp_all add: idle_input_def)
  have s1: "spawns idle_input due_engine"
    by (simp add: spawns_def paused_after_input due_fields g)
  have s2: "\<not> spawns idle_input fresh_engine"
    by (simp add: spawns_def fresh_fields)
  from spawn_interval_recomputed [OF r1] s1
  have a: "spawn_interval e1 = 50" "spawn_timer e1 = 0"
    by (simp_all add: due_fields g)
  from spawn_interval_recomputed [OF r2] s2
  have b: "spawn_interval e2 = 60"
    by (simp add: fresh_fields)
  from r1 r2 s1 s2 a b show ?thesis
    by (simp add: due_fields)
qed

section \<open>A pass of the loop while paused\<close>

lemma input_stage_paused:
  assumes "paused (input_stage inp e)"
  shows "input_stage inp e = update_reload (t_reload inp) (reload_edge inp (pause_edge inp e))"
proof -
  have "paused (pause_edge inp e)"
    using assms by (simp add: input_stage_keeps)
  then have "paused (reload_edge inp (pause_edge inp e))"
    by (simp add: reload_edge_keeps)
  then show ?thesis
    by (simp add: input_stage_def shoot_stage_paused)
qed

lemma input_stage_paused_fields:
  assumes "paused (input_stage inp e)"
  shows "spawn_timer (input_stage inp e) = spawn_timer e
    \<and> targets (input_stage inp e) = targets e
    \<and> explosions (input_stage inp e) = explosions e
    \<and> shockwaves (input_stage inp e) = shockwaves e
    \<and> tracers (input_stage inp e) = tracers e
    \<and> muzzle_flashes (input_stage inp e) = muzzle_flashes e"
  unfolding input_stage_paused [OF assms]
  by (simp add: update_reload_def reload_edge_def pause_edge_def start_reload_def
      toggle_pause_def play_sound_def)

lemma paused_frame_result:
  assumes "paused (input_stage inp e)"
  shows "run_frame inp e = Inr (update_effects inp (input_stage inp e))"
  using assms by (simp add: run_frame_def spawn_stage_paused)

text \<open>
  C10, amended. When the game is paused as the loop reaches its update block, the pass
  leaves the spawn timer and the live targets (so every target's position and velocity)
  as they were, and still ages the effects: every particle moves by its velocity, is
  damped by 0.98 and loses the frame's elapsed milliseconds of life, and is dropped at
  life 0 or below, an explosion going with its last particle; every shockwave grows by
  180 px per second of the elapsed time and loses the elapsed milliseconds, and is dropped
  at full radius or at life 0 or below; every tracer loses the elapsed milliseconds and is
  dropped at life 0 or below. Muzzle flashes are not aged by the elapsed time: a flash is
  kept exactly while the wall clock is before its end time.
\<close>

theorem paused_frame:
  assumes "paused (input_stage inp e)"
  shows
   "(\<exists>e'. run_frame inp e = Inr e'
       \<and> spawn_timer e' = spawn_timer e
       \<and> targets e' = targets e
       \<and> explosions e' = filter (\<lambda>ex. particles ex \<noteq> [])
                            (map (age_explosion (dt_ms inp)) (explosions e))
       \<and> shockwaves e' = filter (\<lambda>s. \<not> shockwave_done s)
                            (map (age_shockwave (dt_ms inp)) (shockwaves e))
       \<and> tracers e' = filter (\<lambda>tr. 0 < tr_life tr)
                            (map (age_tracer (dt_ms inp)) (tracers e))
       \<and> muzzle_flashes e' = filter (\<lambda>m. now_ms (t_flash inp) < m_end m) (muzzle_flashes e))
    \<and> particles (age_explosion dt ex) =
         filter (\<lambda>p. 0 < p_life p) (map (age_particle dt) (particles ex))
    \<and> p_life (age_particle dt p) = p_life p - dt
    \<and> p_x (age_particle dt p) = p_x p + p_vx p \<and> p_y (age_particle dt p) = p_y p + p_vy p
    \<and> p_vx (age_particle dt p) = p_vx p * (98 / 100)
    \<and> p_vy (age_particle dt p) = p_vy p * (98 / 100)
    \<and> s_life (age_shockwave dt s) = s_life s - dt
    \<and> s_r (age_shockwave dt s) = s_r s + 180 * (of_int dt / 1000)
    \<and> tr_life (age_tracer dt tr) = tr_life tr - dt"
proof -
  have f: "\<exists>e'. run_frame inp e = Inr e'
       \<and> spawn_timer e' = spawn_timer e
       \<and> targets e' = targets e
       \<and> explosions e' = filter (\<lambda>ex. particles ex \<noteq> [])
                            (map (age_explosion (dt_ms inp)) (explosions e))
       \<and> shockwaves e' = filter (\<lambda>s. \<not> shockwave_done s)
                            (map (age_shockwave (dt_ms inp)) (shockwaves e))
       \<and> tracers e' = filter (\<lambda>tr. 0 < tr_life tr)
                            (map (age_tracer (dt_ms inp)) (tracers e))
       \<and> muzzle_flashes e' = filter (\<lambda>m. now_ms (t_flash inp) < m_end m) (muzzle_flashes e)"
    using paused_frame_result [OF assms] input_stage_paused_fields [OF assms]
    by (simp add: update_effects_eq)
  have g: "particles (age_explosion dt ex) =
         filter (\<lambda>p. 0 < p_life p) (map (age_particle dt) (particles ex))
    \<and> p_life (age_particle dt p) = p_life p - dt
    \<and> p_x (age_particle dt p) = p_x p + p_vx p \<and> p_y (age_particle dt p) = p_y p + p_vy p
    \<and> p_vx (age_particle dt p) = p_vx p * (98 / 100)
    \<and> p_vy (age_particle dt p) = p_vy p * (98 / 100)
    \<and> s_life (age_shockwave dt s) = s_life s - dt
    \<and> s_r (age_shockwave dt s) = s_r s + 180 * (of_int dt / 1000)
    \<and> tr_life (age_tracer dt tr) = tr_life tr - dt"
    by (simp add: age_explosion_def age_particle_def age_shockwave_def age_tracer_def)
  from f g show ?thesis by blast
qed

lemma flash_fields:
  "paused flash_engine \<and> \<not> pause_gesture_active flash_engine \<and> spawn_timer flash_engine = 7
   \<and> muzzle_flashes flash_engine = [\<lparr>m_pos = (5, 5), m_end = 1090\<rparr>]
   \<and> tracers flash_engine = [\<lparr>tr_start = (5, 5), tr_end = (9, 9), tr_life = 90, tr_max_life = 120\<rparr>]
   \<and> explosions flash_engine = [] \<and> shockwaves flash_engine = []
   \<and> targets flash_engine = [Target_init 100 100 ''moving'' (1280, 720) 1 1 1 2 0]"
  by (simp add: flash_engine_def spawn_muzzle_flash_def fresh_fields fresh_more_fields
      now_ms_def py_int_def)

lemma slow_frame_fields:
  "dt_ms slow_frame = 100 \<and> \<not> g_pause slow_frame \<and> now_ms (t_flash slow_frame) = 1051"
  by (simp add: slow_frame_def idle_input_def now_ms_def py_int_def)

lemma flash_engine_paused: "paused (input_stage slow_frame flash_engine)"
  by (simp add: paused_after_input flash_fields slow_frame_fields)

text \<open>
  C10 as stated fails for muzzle flashes. A flash lasts 90 ms from its creation. In a
  paused pass whose elapsed time is 100 ms, a tracer with 90 ms left is expired, but a
  flash ending at 1090 ms is still there, since the clock reads 1051 ms: flashes are held
  against the wall clock, not aged by the frame's elapsed milliseconds.
\<close>

theorem paused_frame_flash_counterexample:
  "paused flash_engine \<and> paused (input_stage slow_frame flash_engine)
   \<and> dt_ms slow_frame = 100
   \<and> muzzle_flashes flash_engine = [\<lparr>m_pos = (5, 5), m_end = 1090\<rparr>]
   \<and> tracers flash_engine =
       [\<lparr>tr_start = (5, 5), tr_end = (9, 9), tr_life = 90, tr_max_life = 120\<rparr>]
   \<and> (\<exists>e'. run_frame slow_frame flash_engine = Inr e'
        \<and> tracers e' = []
        \<and> muzzle_flashes e' = [\<lparr>m_pos = (5, 5), m_end = 1090\<rparr>])"
  using paused_frame_result [OF flash_engine_paused]
    input_stage_paused_fields [OF flash_engine_paused]
  by (simp add: update_effects_eq flash_fields slow_frame_fields flash_engine_paused age_tracer_def)

theorem paused_frame_witness:
  "paused (input_stage idle_input flash_engine)
   \<and> (\<exists>e'. run_frame idle_input flash_engine = Inr e'
        \<and> spawn_timer e' = 7
        \<and> targets e' = [Target_init 100 100 ''moving'' (1280, 720) 1 1 1 2 0]
        \<and> explosions e' = [] \<and> shockwaves e' = []
        \<and> tracers e' =
            [\<lparr>tr_start = (5, 5), tr_end = (9, 9), tr_life = 74, tr_max_life = 120\<rparr>]
        \<and> muzzle_flashes e' = [])"
proof -
  have g: "\<not> g_pause idle_input" "dt_ms idle_input = 16" "now_ms (t_flash idle_input) = 45000"
    by (simp_all add: idle_input_def now_ms_def py_int_def)
  have p: "paused (input_stage idle_input flash_engine)"
    by (simp add: paused_after_input flash_fields g)
  from paused_frame [OF p] p show ?thesis
    by (simp add: flash_fields g age_tracer_def)
qed

end
